theory Spec2Isabelle
  imports Complex_Main "HOL-Library.AList"
begin

section \<open>JavaScript containers and numbers\<close>

text \<open>
  A JavaScript \<open>Map\<close> iterates in insertion order and \<open>set\<close> on a key that is present
  keeps the key's place, so a map is an association list with \<open>AList.update\<close> as \<open>set\<close>
  and \<open>map_of\<close> as \<open>get\<close> (\<open>None\<close> is \<open>undefined\<close>).  A \<open>Set\<close> is a list without
  repetitions, again in insertion order.  Numbers are idealised as reals, except in
  the statistical reweighter, which is modelled over an arbitrary arithmetic.
\<close>

type_synonym ('k, 'v) jsmap = "('k \<times> 'v) list"

definition map_set :: "('k, 'v) jsmap \<Rightarrow> 'k \<Rightarrow> 'v \<Rightarrow> ('k, 'v) jsmap" where
  "map_set m k v = AList.update k v m"

definition map_has :: "('k, 'v) jsmap \<Rightarrow> 'k \<Rightarrow> bool" where
  "map_has m k = (map_of m k \<noteq> None)"

definition set_add :: "'a list \<Rightarrow> 'a \<Rightarrow> 'a list" where
  "set_add s x = (if x \<in> set s then s else s @ [x])"

text \<open>\<open>x || d\<close> on a number that may be \<open>undefined\<close>: the default replaces \<open>undefined\<close> and \<open>0\<close>.\<close>

fun num_or :: "real option \<Rightarrow> real \<Rightarrow> real" where
  "num_or None d = d"
| "num_or (Some x) d = (if x = 0 then d else x)"

section \<open>Graph store (graph/types.ts)\<close>

record SimpleGraph =
  nodes :: "string list"
  edges :: "(string, (string, real) jsmap) jsmap"

definition createGraph :: SimpleGraph where
  "createGraph = \<lparr>nodes = [], edges = []\<rparr>"

definition addNode :: "SimpleGraph \<Rightarrow> string \<Rightarrow> SimpleGraph" where
  "addNode graph nodeId =
     (let g1 = graph\<lparr>nodes := set_add (nodes graph) nodeId\<rparr>
      in if \<not> map_has (edges g1) nodeId
         then g1\<lparr>edges := map_set (edges g1) nodeId []\<rparr>
         else g1)"

text \<open>The adjacency map of a node; \<open>graph.edges.get(n)\<close> with \<open>undefined\<close> read as no entries.\<close>

definition adjacency :: "SimpleGraph \<Rightarrow> string \<Rightarrow> (string, real) jsmap" where
  "adjacency graph nodeId = (case map_of (edges graph) nodeId of None \<Rightarrow> [] | Some m \<Rightarrow> m)"

text \<open>
  \<open>addEdge\<close> writes through two references, \<open>sourceEdges\<close> and \<open>targetEdges\<close>.  When
  source and target are the same node both name one object, so the second write reads
  what the first one stored: the model reads \<open>targetEdges\<close> from the store after the
  first write.
\<close>

definition addEdge :: "SimpleGraph \<Rightarrow> string \<Rightarrow> string \<Rightarrow> real \<Rightarrow> SimpleGraph" where
  "addEdge graph source target weight =
     (let g1 = addNode (addNode graph source) target;
          sourceEdges = adjacency g1 source;
          g2 = g1\<lparr>edges := map_set (edges g1) source
                 (map_set sourceEdges target (num_or (map_of sourceEdges target) 0 + weight))\<rparr>;
          targetEdges = adjacency g2 target;
          g3 = g2\<lparr>edges := map_set (edges g2) target
                 (map_set targetEdges source (num_or (map_of targetEdges source) 0 + weight))\<rparr>
      in g3)"

definition getNeighbors :: "SimpleGraph \<Rightarrow> string \<Rightarrow> string list" where
  "getNeighbors graph nodeId = map fst (adjacency graph nodeId)"

definition getDegree :: "SimpleGraph \<Rightarrow> string \<Rightarrow> nat" where
  "getDegree graph nodeId = length (adjacency graph nodeId)"

definition getEdgeWeight :: "SimpleGraph \<Rightarrow> string \<Rightarrow> string \<Rightarrow> real" where
  "getEdgeWeight graph source target = num_or (map_of (adjacency graph source) target) 0"

definition hasEdge :: "SimpleGraph \<Rightarrow> string \<Rightarrow> string \<Rightarrow> bool" where
  "hasEdge graph source target = map_has (adjacency graph source) target"

text \<open>
  For stating properties: the weight stored for the ordered pair \<open>(a, b)\<close>, and the
  three parts of the graph invariant.
\<close>

definition edgeAt :: "SimpleGraph \<Rightarrow> string \<Rightarrow> string \<Rightarrow> real option" where
  "edgeAt graph a b = map_of (adjacency graph a) b"

definition symmetricWeights :: "SimpleGraph \<Rightarrow> bool" where
  "symmetricWeights graph = (\<forall>a b. edgeAt graph a b = edgeAt graph b a)"

definition nonNegativeWeights :: "SimpleGraph \<Rightarrow> bool" where
  "nonNegativeWeights graph = (\<forall>a b w. edgeAt graph a b = Some w \<longrightarrow> 0 \<le> w)"

definition noSelfLoops :: "SimpleGraph \<Rightarrow> bool" where
  "noSelfLoops graph = (\<forall>a. edgeAt graph a a = None)"

section \<open>Community detection (graph/communities.ts)\<close>

text \<open>
  A community id is a number; \<open>communities.get(x)\<close> of a name that is no key is
  \<open>undefined\<close>, which JavaScript accepts as a map key and as a stored value, so ids are
  \<open>nat option\<close> with \<open>None\<close> for \<open>undefined\<close>.
\<close>

definition initCommunities :: "string list \<Rightarrow> (string, nat option) jsmap" where
  "initCommunities ns =
     fst (fold (\<lambda>node (communities, communityId).
                 (map_set communities node (Some communityId), communityId + 1))
               ns ([], 0))"

definition communityOf :: "(string, nat option) jsmap \<Rightarrow> string \<Rightarrow> nat option" where
  "communityOf communities n = (case map_of communities n of None \<Rightarrow> None | Some c \<Rightarrow> c)"

definition neighborWeights ::
  "SimpleGraph \<Rightarrow> (string, nat option) jsmap \<Rightarrow> string \<Rightarrow> (nat option, real) jsmap" where
  "neighborWeights graph communities node =
     fold (\<lambda>neighbor neighborCommunities.
             let neighborCommunity = communityOf communities neighbor;
                 weight = num_or (map_of (adjacency graph node) neighbor) 1
             in map_set neighborCommunities neighborCommunity
                  (num_or (map_of neighborCommunities neighborCommunity) 0 + weight))
          (getNeighbors graph node) []"

definition bestMove :: "nat option \<Rightarrow> (nat option, real) jsmap \<Rightarrow> nat option \<times> real" where
  "bestMove currentCommunity neighborCommunities =
     fold (\<lambda>(community, weight) (bestCommunity, bestGain).
             if community \<noteq> currentCommunity
             then (let gain = weight - num_or (map_of neighborCommunities currentCommunity) 0
                   in if gain > bestGain then (community, gain) else (bestCommunity, bestGain))
             else (bestCommunity, bestGain))
          neighborCommunities (currentCommunity, 0)"

definition moveNode ::
  "SimpleGraph \<Rightarrow> string \<Rightarrow> (string, nat option) jsmap \<times> bool
     \<Rightarrow> (string, nat option) jsmap \<times> bool" where
  "moveNode graph node = (\<lambda>(communities, improved).
     let currentCommunity = communityOf communities node;
         neighborCommunities = neighborWeights graph communities node;
         (bestCommunity, bestGain) = bestMove currentCommunity neighborCommunities
     in if bestCommunity \<noteq> currentCommunity \<and> bestGain > 0
        then (map_set communities node bestCommunity, True)
        else (communities, improved))"

function localMoves ::
  "SimpleGraph \<Rightarrow> (string, nat option) jsmap \<Rightarrow> bool \<Rightarrow> nat \<Rightarrow> (string, nat option) jsmap" where
  "localMoves graph communities improved iterations =
     (if improved \<and> iterations < 100
      then (let (communities', improved') =
                  fold (moveNode graph) (nodes graph) (communities, False)
            in localMoves graph communities' improved' (iterations + 1))
      else communities)"
  by pat_completeness auto
termination
  by (relation "measure (\<lambda>(graph, communities, improved, iterations). 100 - iterations)") auto

declare localMoves.simps [simp del]

definition renumberCommunities :: "(string, nat option) jsmap \<Rightarrow> (string, nat option) jsmap" where
  "renumberCommunities communities =
     (let uniqueCommunities = fold (\<lambda>v s. set_add s v) (map snd communities) [];
          communityMap = fst (fold (\<lambda>oldId (m, newId). (map_set m oldId newId, newId + 1))
                                   uniqueCommunities ([], 0 :: nat))
      in fold (\<lambda>(node, oldCommunity) result.
                 map_set result node (map_of communityMap oldCommunity))
              communities [])"

definition detectCommunities :: "SimpleGraph \<Rightarrow> (string, nat option) jsmap" where
  "detectCommunities graph =
     (if length (nodes graph) = 0 then []
      else if length (nodes graph) = 1 then [(hd (nodes graph), Some 0)]
      else renumberCommunities (localMoves graph (initCommunities (nodes graph)) True 0))"

text \<open>The pairs \<open>(xs[i], xs[j])\<close> with \<open>i < j\<close>, in the order of the two nested loops.\<close>

fun index_pairs :: "'a list \<Rightarrow> ('a \<times> 'a) list" where
  "index_pairs [] = []"
| "index_pairs (x # xs) = map (Pair x) xs @ index_pairs xs"

definition neighborTriangles :: "SimpleGraph \<Rightarrow> string list \<Rightarrow> nat" where
  "neighborTriangles graph neighbors =
     length (filter (\<lambda>(a, b). map_has (adjacency graph a) b) (index_pairs neighbors))"

definition localCoefficient :: "SimpleGraph \<Rightarrow> string \<Rightarrow> real" where
  "localCoefficient graph node =
     (let neighbors = getNeighbors graph node;
          k = length neighbors;
          triangles = neighborTriangles graph neighbors;
          possibleTriangles = (real k * (real k - 1)) / 2
      in real triangles / possibleTriangles)"

definition averageClusteringCoefficient :: "SimpleGraph \<Rightarrow> real" where
  "averageClusteringCoefficient graph =
     (if length (nodes graph) = 0 then 0
      else (let totalCoeff =
                  fold (\<lambda>node totalCoeff.
                          if length (getNeighbors graph node) < 2 then totalCoeff
                          else totalCoeff + localCoefficient graph node)
                       (nodes graph) 0
            in totalCoeff / real (length (nodes graph))))"

text \<open>
  The average as the specification words it, for comparison: the mean of the local
  coefficient over the nodes of degree at least 2 only.
\<close>

definition qualifyingMean :: "SimpleGraph \<Rightarrow> real" where
  "qualifyingMean graph =
     (let qualifying = filter (\<lambda>node. 2 \<le> getDegree graph node) (nodes graph)
      in sum_list (map (localCoefficient graph) qualifying) / real (length qualifying))"

text \<open>Example graphs: a triangle with a pendant node, and two separate triangles.\<close>

definition clusterExample :: SimpleGraph where
  "clusterExample =
     \<lparr>nodes = [''a'', ''b'', ''c'', ''d''],
      edges = [(''a'', [(''b'', 1), (''c'', 1), (''d'', 1)]),
               (''b'', [(''a'', 1), (''c'', 1)]),
               (''c'', [(''a'', 1), (''b'', 1)]),
               (''d'', [(''a'', 1)])]\<rparr>"

definition twoTriangles :: SimpleGraph where
  "twoTriangles =
     \<lparr>nodes = [''a'', ''b'', ''c'', ''x'', ''y'', ''z''],
      edges = [(''a'', [(''b'', 1), (''c'', 1)]),
               (''b'', [(''a'', 1), (''c'', 1)]),
               (''c'', [(''a'', 1), (''b'', 1)]),
               (''x'', [(''y'', 1), (''z'', 1)]),
               (''y'', [(''x'', 1), (''z'', 1)]),
               (''z'', [(''x'', 1), (''y'', 1)])]\<rparr>"

section \<open>Betweenness centrality (graph/centrality.ts)\<close>

text \<open>
  The state of the breadth-first traversal from one source.  \<open>queue.shift()\<close> takes the
  head, \<open>stack.push\<close> appends and \<open>stack.pop\<close> takes the last element.
\<close>

record BfsState =
  queue :: "string list"
  stack :: "string list"
  predecessors :: "(string, string list) jsmap"
  sigma :: "(string, real) jsmap"
  distance :: "(string, real) jsmap"

text \<open>\<open>m.get(k) ?? d\<close>.\<close>

definition get_or :: "(string, 'v) jsmap \<Rightarrow> string \<Rightarrow> 'v \<Rightarrow> 'v" where
  "get_or m k d = (case map_of m k of None \<Rightarrow> d | Some x \<Rightarrow> x)"

definition initBfs :: "SimpleGraph \<Rightarrow> string \<Rightarrow> BfsState" where
  "initBfs graph source' =
     (let st0 = fold (\<lambda>node st.
                        st\<lparr>predecessors := map_set (predecessors st) node [],
                           sigma := map_set (sigma st) node 0,
                           distance := map_set (distance st) node (- 1)\<rparr>)
                     (nodes graph)
                     \<lparr>queue = [], stack = [], predecessors = [], sigma = [], distance = []\<rparr>
      in st0\<lparr>sigma := map_set (sigma st0) source' 1,
             distance := map_set (distance st0) source' 0,
             queue := [source']\<rparr>)"

definition visitNeighbor :: "string \<Rightarrow> string \<Rightarrow> BfsState \<Rightarrow> BfsState" where
  "visitNeighbor v w st =
     (let distW = get_or (distance st) w (- 1);
          distV = get_or (distance st) v 0;
          st1 = (if distW < 0
                 then st\<lparr>queue := queue st @ [w],
                         distance := map_set (distance st) w (distV + 1)\<rparr>
                 else st)
      in if map_of (distance st1) w = Some (distV + 1)
         then (let sigmaW = get_or (sigma st1) w 0;
                   sigmaV = get_or (sigma st1) v 0;
                   st2 = st1\<lparr>sigma := map_set (sigma st1) w (sigmaW + sigmaV)\<rparr>
               in case map_of (predecessors st2) w of
                    Some preds \<Rightarrow> st2\<lparr>predecessors := map_set (predecessors st2) w (preds @ [v])\<rparr>
                  | None \<Rightarrow> st2)
         else st1)"

text \<open>
  The traversal loop runs while the queue is not empty; a run that never ends is the
  value \<open>None\<close>.
\<close>

partial_function (option) bfsLoop :: "SimpleGraph \<Rightarrow> BfsState \<Rightarrow> BfsState option" where
  "bfsLoop graph st =
     (case queue st of
        [] \<Rightarrow> Some st
      | v # rest \<Rightarrow>
          bfsLoop graph
            (fold (visitNeighbor v) (getNeighbors graph v)
               (st\<lparr>queue := rest, stack := stack st @ [v]\<rparr>)))"

declare bfsLoop.simps [code]

text \<open>
  The accumulation phase for one popped node \<open>w\<close>: the state is the pair of the maps
  \<open>delta\<close> and \<open>bc\<close>.
\<close>

definition accumulate ::
  "string \<Rightarrow> BfsState \<Rightarrow> string
     \<Rightarrow> (string, real) jsmap \<times> (string, real) jsmap
     \<Rightarrow> (string, real) jsmap \<times> (string, real) jsmap" where
  "accumulate source' st w = (\<lambda>(delta, bc).
     let preds = get_or (predecessors st) w [];
         delta' = fold (\<lambda>v delta.
                          let sigmaV = get_or (sigma st) v 0;
                              sigmaW = get_or (sigma st) w 0
                          in if sigmaW > 0
                             then (let deltaW = get_or delta w 0;
                                       contribution = (sigmaV / sigmaW) * (1 + deltaW);
                                       deltaV = get_or delta v 0
                                   in map_set delta v (deltaV + contribution))
                             else delta)
                       preds delta
     in if w \<noteq> source'
        then (let bcW = get_or bc w 0;
                  deltaW = get_or delta' w 0
              in (delta', map_set bc w (bcW + deltaW)))
        else (delta', bc))"

definition fromSource ::
  "SimpleGraph \<Rightarrow> string \<Rightarrow> (string, real) jsmap \<Rightarrow> (string, real) jsmap option" where
  "fromSource graph source' bc =
     (case bfsLoop graph (initBfs graph source') of
        None \<Rightarrow> None
      | Some st \<Rightarrow>
          (let delta0 = fold (\<lambda>node delta. map_set delta node 0) (nodes graph) []
           in Some (snd (fold (accumulate source' st) (rev (stack st)) (delta0, bc)))))"

fun forSources ::
  "SimpleGraph \<Rightarrow> string list \<Rightarrow> (string, real) jsmap \<Rightarrow> (string, real) jsmap option" where
  "forSources graph [] bc = Some bc"
| "forSources graph (source' # sources) bc =
     (case fromSource graph source' bc of
        None \<Rightarrow> None
      | Some bc' \<Rightarrow> forSources graph sources bc')"

definition betweennessCentrality :: "SimpleGraph \<Rightarrow> (string, real) jsmap option" where
  "betweennessCentrality graph =
     (let bc0 = fold (\<lambda>node bc. map_set bc node 0) (nodes graph) []
      in if length (nodes graph) < 3 then Some bc0
         else (case forSources graph (nodes graph) bc0 of
                 None \<Rightarrow> None
               | Some bc \<Rightarrow>
                   (let n = real (length (nodes graph))
                    in if n > 2
                       then (let normFactor = 2 / ((n - 1) * (n - 2))
                             in Some (map (\<lambda>(node, v). (node, v * normFactor)) bc))
                       else Some bc)))"

definition pathABC :: SimpleGraph where
  "pathABC =
     \<lparr>nodes = [''a'', ''b'', ''c''],
      edges = [(''a'', [(''b'', 1)]),
               (''b'', [(''a'', 1), (''c'', 1)]),
               (''c'', [(''b'', 1)])]\<rparr>"

definition pathABCD :: SimpleGraph where
  "pathABCD =
     \<lparr>nodes = [''a'', ''b'', ''c'', ''d''],
      edges = [(''a'', [(''b'', 1)]),
               (''b'', [(''a'', 1), (''c'', 1)]),
               (''c'', [(''b'', 1), (''d'', 1)]),
               (''d'', [(''c'', 1)])]\<rparr>"

section \<open>Ensemble merger (extraction/ensemble.ts)\<close>

text \<open>
  Strings are lists of code units.  \<open>toLowerCase\<close> is modelled on the code units below
  256 (the ASCII and Latin-1 capitals); the record fields follow the interfaces
  \<open>Entity\<close>, \<open>EntityMention\<close>, \<open>Provenance\<close>, \<open>EntityWithProvenance\<close> and
  \<open>EnsembleEntity\<close>, where \<open>startPosition\<close> is declared a number.
\<close>

datatype EntityType =
  Person | Organization | Place | Product | Event | Concept | Technology
  | CreativeWork | MedicalCondition | Drug | Unknown

datatype ExtractorSource = textrazor | nuextract | ensemble

datatype AgreementLevel = both | textrazor_only | nuextract_only

record EntityMention =
  startPosition :: real
  endPosition :: real
  mentionText :: string
  sentenceIndex :: nat

record Provenance =
  sourceUrl :: string
  blockId :: string
  evidence :: string
  extractor :: ExtractorSource
  provConfidence :: real

record Entity =
  eid :: string
  name :: string
  etype :: EntityType
  confidence :: real
  relevance :: real
  mentions :: "EntityMention list"

record EntityWithProvenance = Entity +
  provenance :: Provenance
  byTextrazor :: bool
  byNuextract :: bool

record EnsembleEntity = EntityWithProvenance +
  ensembleConfidence :: real
  agreementLevel :: AgreementLevel

record EnsembleStats =
  textrazorCount :: nat
  nuextractCount :: nat
  mergedCount :: nat
  bothAgreed :: nat
  textrazorOnly :: nat
  nuextractOnly :: nat

record EnsembleOptions =
  optNameMatchThreshold :: "real option"
  optAgreementBoost :: "real option"
  optTextrazorPenalty :: "real option"
  optNuextractPenalty :: "real option"

record EnsembleAggregator =
  nameMatchThreshold :: real
  agreementBoost :: real
  textrazorPenalty :: real
  nuextractPenalty :: real

record MergeResult =
  entities :: "EnsembleEntity list"
  stats :: EnsembleStats

text \<open>The constructor: \<open>options.x ?? default\<close>.\<close>

definition newEnsembleAggregator :: "EnsembleOptions \<Rightarrow> EnsembleAggregator" where
  "newEnsembleAggregator options =
     \<lparr>nameMatchThreshold = (case optNameMatchThreshold options of None \<Rightarrow> 0.85 | Some x \<Rightarrow> x),
      agreementBoost = (case optAgreementBoost options of None \<Rightarrow> 1.2 | Some x \<Rightarrow> x),
      textrazorPenalty = (case optTextrazorPenalty options of None \<Rightarrow> 0.9 | Some x \<Rightarrow> x),
      nuextractPenalty = (case optNuextractPenalty options of None \<Rightarrow> 0.85 | Some x \<Rightarrow> x)\<rparr>"

definition noOptions :: EnsembleOptions where
  "noOptions = \<lparr>optNameMatchThreshold = None, optAgreementBoost = None,
                 optTextrazorPenalty = None, optNuextractPenalty = None\<rparr>"

definition lowerChar :: "char \<Rightarrow> char" where
  "lowerChar c =
     (let n = (of_char c :: nat)
      in if (65 \<le> n \<and> n \<le> 90) \<or> (192 \<le> n \<and> n \<le> 222 \<and> n \<noteq> 215)
         then char_of (n + 32) else c)"

definition toLowerCase :: "string \<Rightarrow> string" where
  "toLowerCase s = map lowerChar s"

fun startsWith :: "string \<Rightarrow> string \<Rightarrow> bool" where
  "startsWith s [] = True"
| "startsWith [] (p # ps) = False"
| "startsWith (c # cs) (p # ps) = (c = p \<and> startsWith cs ps)"

text \<open>\<open>s.includes(sub)\<close>: \<open>sub\<close> occurs in \<open>s\<close> as a contiguous run.\<close>

fun includes_str :: "string \<Rightarrow> string \<Rightarrow> bool" where
  "includes_str [] sub = (sub = [])"
| "includes_str (c # cs) sub = (startsWith (c # cs) sub \<or> includes_str cs sub)"

definition typeGroups :: "EntityType \<Rightarrow> EntityType list" where
  "typeGroups t =
     (case t of
        Person \<Rightarrow> [Person]
      | Organization \<Rightarrow> [Organization]
      | Place \<Rightarrow> [Place]
      | Product \<Rightarrow> [Product]
      | Event \<Rightarrow> [Event]
      | Technology \<Rightarrow> [Technology, Concept]
      | Concept \<Rightarrow> [Concept, Technology]
      | CreativeWork \<Rightarrow> [CreativeWork]
      | Unknown \<Rightarrow> [Unknown, Concept]
      | other \<Rightarrow> [other])"

definition typesCompatible :: "EntityType \<Rightarrow> EntityType \<Rightarrow> bool" where
  "typesCompatible type1 type2 =
     (if type1 = type2 then True
      else (let group1 = typeGroups type1; group2 = typeGroups type2
            in list_ex (\<lambda>t. t \<in> set group2) group1))"

text \<open>
  The dynamic-programming table of \<open>levenshteinDistance\<close>, row by row.  \<open>levRow\<close>
  fills \<open>dp[i][1..n]\<close> from the row above: \<open>prev\<close> is \<open>dp[i-1][j-1..]\<close> and \<open>left\<close> is
  \<open>dp[i][j-1]\<close>.
\<close>

fun levRow :: "char \<Rightarrow> string \<Rightarrow> nat list \<Rightarrow> nat \<Rightarrow> nat list" where
  "levRow c (d # ds) (diag # up # prev) left =
     (let v = (if c = d then diag else 1 + min up (min left diag))
      in v # levRow c ds (up # prev) v)"
| "levRow c ds prev left = []"

fun levRows :: "string \<Rightarrow> string \<Rightarrow> nat list \<Rightarrow> nat \<Rightarrow> nat list" where
  "levRows [] s2 row i = row"
| "levRows (c # cs) s2 row i = levRows cs s2 (i # levRow c s2 row i) (i + 1)"

definition levenshteinDistance :: "string \<Rightarrow> string \<Rightarrow> nat" where
  "levenshteinDistance s1 s2 = last (levRows s1 s2 [0 ..< length s2 + 1] 1)"

definition stringSimilarity :: "string \<Rightarrow> string \<Rightarrow> real" where
  "stringSimilarity s1 s2 =
     (let longer = (if length s1 > length s2 then s1 else s2);
          shorter = (if length s1 > length s2 then s2 else s1)
      in if length longer = 0 then 1
         else (let editDistance = levenshteinDistance longer shorter
               in (real (length longer) - real editDistance) / real (length longer)))"

fun findMatch ::
  "EnsembleAggregator \<Rightarrow> EntityWithProvenance \<Rightarrow> EntityWithProvenance list
     \<Rightarrow> EntityWithProvenance option" where
  "findMatch this target [] = None"
| "findMatch this target (candidate # candidates) =
     (let targetName = toLowerCase (name target);
          candidateName = toLowerCase (name candidate)
      in if targetName = candidateName then Some candidate
         else if stringSimilarity targetName candidateName \<ge> nameMatchThreshold this
                 \<and> typesCompatible (etype target) (etype candidate)
              then Some candidate
         else if ((length targetName > 3 \<and> includes_str candidateName targetName)
                  \<or> (length candidateName > 3 \<and> includes_str targetName candidateName))
                 \<and> typesCompatible (etype target) (etype candidate)
              then Some candidate
         else findMatch this target candidates)"

definition createEnsembleEntity ::
  "EnsembleAggregator \<Rightarrow> EntityWithProvenance \<Rightarrow> EntityWithProvenance \<Rightarrow> EnsembleEntity" where
  "createEnsembleEntity this textRazor nuExtract =
     (let existingPositions = set (map startPosition (mentions textRazor));
          allMentions = mentions textRazor
            @ filter (\<lambda>m. startPosition m \<notin> existingPositions) (mentions nuExtract);
          baseConfidence = max (confidence textRazor) (confidence nuExtract);
          ensembleConfidence' = min 1 (baseConfidence * agreementBoost this)
      in \<lparr>eid = eid textRazor, name = name textRazor, etype = etype textRazor,
          confidence = ensembleConfidence',
          relevance = relevance textRazor,
          mentions = allMentions,
          provenance = (provenance textRazor)\<lparr>extractor := ensemble,
                          provConfidence := ensembleConfidence'\<rparr>,
          byTextrazor = True, byNuextract = True,
          ensembleConfidence = ensembleConfidence',
          agreementLevel = both\<rparr>)"

definition createSingleSourceEntity ::
  "EnsembleAggregator \<Rightarrow> EntityWithProvenance \<Rightarrow> ExtractorSource \<Rightarrow> EnsembleEntity" where
  "createSingleSourceEntity this entity source =
     (let confidenceMultiplier =
            (if source = textrazor then textrazorPenalty this else nuextractPenalty this);
          ensembleConfidence' = confidence entity * confidenceMultiplier
      in \<lparr>eid = eid entity, name = name entity, etype = etype entity,
          confidence = ensembleConfidence',
          relevance = relevance entity,
          mentions = mentions entity,
          provenance = (provenance entity)\<lparr>extractor := source,
                          provConfidence := ensembleConfidence'\<rparr>,
          byTextrazor = (source = textrazor), byNuextract = (source = nuextract),
          ensembleConfidence = ensembleConfidence',
          agreementLevel = (if source = textrazor then textrazor_only else nuextract_only)\<rparr>)"

text \<open>
  The first loop of \<open>merge\<close>: \<open>result\<close> and the set \<open>matched\<close> of ids of matched
  second-list entities are the state.  \<open>findMatch\<close> is given the whole second list on
  every iteration.
\<close>

definition matchStep ::
  "EnsembleAggregator \<Rightarrow> EntityWithProvenance list \<Rightarrow> EntityWithProvenance
     \<Rightarrow> EnsembleEntity list \<times> string list \<Rightarrow> EnsembleEntity list \<times> string list" where
  "matchStep this nuExtractEntities trEntity = (\<lambda>(result, matched).
     case findMatch this trEntity nuExtractEntities of
       Some nuMatch \<Rightarrow>
         (result @ [createEnsembleEntity this trEntity nuMatch], set_add matched (eid nuMatch))
     | None \<Rightarrow> (result @ [createSingleSourceEntity this trEntity textrazor], matched))"

definition unmatchedStep ::
  "EnsembleAggregator \<Rightarrow> string list \<Rightarrow> EntityWithProvenance
     \<Rightarrow> EnsembleEntity list \<Rightarrow> EnsembleEntity list" where
  "unmatchedStep this matched nuEntity result =
     (if eid nuEntity \<notin> set matched
      then result @ [createSingleSourceEntity this nuEntity nuextract]
      else result)"

definition merge ::
  "EnsembleAggregator \<Rightarrow> EntityWithProvenance list \<Rightarrow> EntityWithProvenance list
     \<Rightarrow> MergeResult" where
  "merge this textRazorEntities nuExtractEntities =
     (let (result1, matched) =
            fold (matchStep this nuExtractEntities) textRazorEntities ([], []);
          result = fold (unmatchedStep this matched) nuExtractEntities result1
      in \<lparr>entities = result,
          stats = \<lparr>textrazorCount = length textRazorEntities,
                    nuextractCount = length nuExtractEntities,
                    mergedCount = length result,
                    bothAgreed = length (filter (\<lambda>e. agreementLevel e = both) result),
                    textrazorOnly = length (filter (\<lambda>e. agreementLevel e = textrazor_only) result),
                    nuextractOnly = length (filter (\<lambda>e. agreementLevel e = nuextract_only) result)\<rparr>\<rparr>)"

text \<open>
  For stating properties: the test \<open>findMatch\<close> applies to one candidate, the result a
  first-list entity gets, and the ids the first loop of \<open>merge\<close> collects.
\<close>

definition entityMatches ::
  "EnsembleAggregator \<Rightarrow> EntityWithProvenance \<Rightarrow> EntityWithProvenance \<Rightarrow> bool" where
  "entityMatches this target candidate =
     (let targetName = toLowerCase (name target);
          candidateName = toLowerCase (name candidate)
      in targetName = candidateName
         \<or> (stringSimilarity targetName candidateName \<ge> nameMatchThreshold this
              \<and> typesCompatible (etype target) (etype candidate))
         \<or> (((length targetName > 3 \<and> includes_str candidateName targetName)
               \<or> (length candidateName > 3 \<and> includes_str targetName candidateName))
              \<and> typesCompatible (etype target) (etype candidate)))"

definition matchResult ::
  "EnsembleAggregator \<Rightarrow> EntityWithProvenance list \<Rightarrow> EntityWithProvenance \<Rightarrow> EnsembleEntity" where
  "matchResult this nuExtractEntities trEntity =
     (case findMatch this trEntity nuExtractEntities of
        Some nuMatch \<Rightarrow> createEnsembleEntity this trEntity nuMatch
      | None \<Rightarrow> createSingleSourceEntity this trEntity textrazor)"

definition matchedIds ::
  "EnsembleAggregator \<Rightarrow> EntityWithProvenance list \<Rightarrow> EntityWithProvenance list
     \<Rightarrow> string list" where
  "matchedIds this textRazorEntities nuExtractEntities =
     map eid (List.map_filter (\<lambda>trEntity. findMatch this trEntity nuExtractEntities)
                textRazorEntities)"

definition mkEntity ::
  "string \<Rightarrow> string \<Rightarrow> EntityType \<Rightarrow> real \<Rightarrow> ExtractorSource \<Rightarrow> EntityWithProvenance" where
  "mkEntity i n t c src =
     \<lparr>eid = i, name = n, etype = t, confidence = c, relevance = 1 / 2, mentions = [],
      provenance = \<lparr>sourceUrl = [], blockId = [], evidence = [], extractor = src,
                     provConfidence = c\<rparr>,
      byTextrazor = (src = textrazor), byNuextract = (src = nuextract)\<rparr>"

definition defaultAggregator :: EnsembleAggregator where
  "defaultAggregator = newEnsembleAggregator noOptions"

definition apple1 :: EntityWithProvenance where
  "apple1 = mkEntity ''Q312'' ''Apple'' Organization (9 / 10) textrazor"

definition apple2 :: EntityWithProvenance where
  "apple2 = mkEntity ''Q89'' ''apple'' Product (4 / 5) textrazor"

definition appleNu :: EntityWithProvenance where
  "appleNu = mkEntity ''n1'' ''Apple'' Organization (7 / 10) nuextract"

definition pearNu :: EntityWithProvenance where
  "pearNu = mkEntity ''n0'' ''Pear'' Organization (3 / 5) nuextract"

section \<open>Gap detector (graph/gaps.ts)\<close>

record BridgeCandidateInfo =
  entityId :: string
  fromCluster :: nat
  potentialConnections :: "string list"
  expectedImpact :: real

record StructuralGapInfo =
  cluster1 :: nat
  cluster2 :: nat
  gapDistance :: real
  cluster1Entities :: "string list"
  cluster2Entities :: "string list"
  bridgeCandidates :: "BridgeCandidateInfo list"

text \<open>\<open>getCommunitiesMap\<close> of communities.ts: the nodes of each community, in map order.\<close>

definition groupStep ::
  "string \<times> nat \<Rightarrow> (nat, string list) jsmap \<Rightarrow> (nat, string list) jsmap" where
  "groupStep = (\<lambda>(node, community) result.
     let r1 = (if \<not> map_has result community then map_set result community []
               else result)
     in map_set r1 community
          ((case map_of r1 community of None \<Rightarrow> [] | Some ns \<Rightarrow> ns) @ [node]))"

definition getCommunitiesMap :: "(string, nat) jsmap \<Rightarrow> (nat, string list) jsmap" where
  "getCommunitiesMap communities = fold groupStep communities []"

text \<open>\<open>clusterNodes.get(c) || []\<close>.\<close>

definition entitiesOf :: "(nat, string list) jsmap \<Rightarrow> nat \<Rightarrow> string list" where
  "entitiesOf clusterNodes c = (case map_of clusterNodes c of None \<Rightarrow> [] | Some ns \<Rightarrow> ns)"

definition interClusterDistance ::
  "SimpleGraph \<Rightarrow> nat \<Rightarrow> nat \<Rightarrow> (string, nat) jsmap \<Rightarrow> real" where
  "interClusterDistance graph c1 c2 communities =
     (let c1Nodes = length (filter (\<lambda>(n, community). community = c1) communities);
          c2Nodes = length (filter (\<lambda>(n, community). community = c2) communities);
          (interClusterEdges, maxWeight) =
            fold (\<lambda>(source', neighbors) acc.
                    if map_of communities source' = Some c1
                    then fold (\<lambda>(target', w) (interEdges, maxW).
                                 ((if map_of communities target' = Some c2
                                   then interEdges + w else interEdges),
                                  (if w > maxW then w else maxW)))
                              neighbors acc
                    else acc)
                 (edges graph) (0, 1);
          maxEdges = real c1Nodes * real c2Nodes
      in if maxEdges = 0 then 1
         else (let maxPossibleWeight = maxEdges * maxWeight
               in if maxPossibleWeight = 0 then 1
                  else (let normalized = min 1 (interClusterEdges / maxPossibleWeight)
                        in 1 - normalized)))"

text \<open>
  One of the two loops of \<open>findBridgeCandidates\<close>: the nodes of \<open>fromEntities\<close> (cluster
  \<open>fromC\<close>) with no neighbour in cluster \<open>toC\<close> are pushed onto \<open>candidates\<close>.
\<close>

definition bridgeStep ::
  "SimpleGraph \<Rightarrow> (string, nat) jsmap \<Rightarrow> nat \<Rightarrow> nat \<Rightarrow> string list \<Rightarrow> string
     \<Rightarrow> BridgeCandidateInfo list \<Rightarrow> BridgeCandidateInfo list" where
  "bridgeStep graph communities fromC toC toEntities node candidates =
     (let neighbors = getNeighbors graph node;
          toNeighbors = filter (\<lambda>n. map_of communities n = Some toC) neighbors
      in if length toNeighbors = 0
         then (let degree = getDegree graph node;
                   impact = real degree * (real (length toEntities) - real (length toNeighbors))
                              / max (real (length toEntities)) 1
               in candidates @ [\<lparr>entityId = node, fromCluster = fromC,
                                  potentialConnections = take 5 toEntities,
                                  expectedImpact = impact\<rparr>])
         else candidates)"

text \<open>
  \<open>sort((a, b) => b.x - a.x)\<close> is a stable sort into descending order of \<open>x\<close>;
  \<open>slice(0, 5)\<close> keeps the first five.
\<close>

definition findBridgeCandidates ::
  "SimpleGraph \<Rightarrow> nat \<Rightarrow> nat \<Rightarrow> (string, nat) jsmap \<Rightarrow> (nat, string list) jsmap
     \<Rightarrow> BridgeCandidateInfo list" where
  "findBridgeCandidates graph c1 c2 communities clusterNodes =
     (let c1Entities = entitiesOf clusterNodes c1;
          c2Entities = entitiesOf clusterNodes c2;
          candidates1 = fold (bridgeStep graph communities c1 c2 c2Entities) c1Entities [];
          candidates2 = fold (bridgeStep graph communities c2 c1 c1Entities) c2Entities candidates1
      in take 5 (sort_key (\<lambda>c. - expectedImpact c) candidates2))"

text \<open>\<open>xs.slice(0, n)\<close> for an integer \<open>n\<close>: a negative \<open>n\<close> counts from the end.\<close>

definition slice0 :: "'a list \<Rightarrow> int \<Rightarrow> 'a list" where
  "slice0 xs n = (if 0 \<le> n then take (nat n) xs else take (length xs - nat (- n)) xs)"

definition gapStep ::
  "SimpleGraph \<Rightarrow> (string, nat) jsmap \<Rightarrow> real \<Rightarrow> (nat, string list) jsmap \<Rightarrow> nat \<times> nat
     \<Rightarrow> StructuralGapInfo list \<Rightarrow> StructuralGapInfo list" where
  "gapStep graph communities minDistance clusterNodes = (\<lambda>(c1, c2) gaps.
     let d = interClusterDistance graph c1 c2 communities
     in if d > minDistance
        then gaps @ [\<lparr>cluster1 = c1, cluster2 = c2, gapDistance = d,
                       cluster1Entities = entitiesOf clusterNodes c1,
                       cluster2Entities = entitiesOf clusterNodes c2,
                       bridgeCandidates =
                         findBridgeCandidates graph c1 c2 communities clusterNodes\<rparr>]
        else gaps)"

definition detectStructuralGaps ::
  "SimpleGraph \<Rightarrow> (string, nat) jsmap \<Rightarrow> real \<Rightarrow> int \<Rightarrow> StructuralGapInfo list" where
  "detectStructuralGaps graph communities minDistance maxGaps =
     (let clusterNodes = getCommunitiesMap communities;
          clusters = map fst clusterNodes;
          gaps = fold (gapStep graph communities minDistance clusterNodes)
                      (index_pairs clusters) []
      in slice0 (sort_key (\<lambda>g. - gapDistance g) gaps) maxGaps)"

text \<open>
  For stating properties: the candidates of one direction in closed form, and the
  candidate list as the specification words it (the top five of each direction,
  merged).
\<close>

definition directionCandidates ::
  "SimpleGraph \<Rightarrow> (string, nat) jsmap \<Rightarrow> nat \<Rightarrow> nat \<Rightarrow> string list \<Rightarrow> string list
     \<Rightarrow> BridgeCandidateInfo list" where
  "directionCandidates graph communities fromC toC fromEntities toEntities =
     map (\<lambda>node. \<lparr>entityId = node, fromCluster = fromC,
                   potentialConnections = take 5 toEntities,
                   expectedImpact = real (getDegree graph node) * real (length toEntities)
                                      / max (real (length toEntities)) 1\<rparr>)
         (filter (\<lambda>node. filter (\<lambda>n. map_of communities n = Some toC)
                             (getNeighbors graph node) = [])
                 fromEntities)"

definition topFivePerDirection ::
  "SimpleGraph \<Rightarrow> (string, nat) jsmap \<Rightarrow> nat \<Rightarrow> nat \<Rightarrow> string list \<Rightarrow> string list
     \<Rightarrow> BridgeCandidateInfo list" where
  "topFivePerDirection graph communities c1 c2 c1Entities c2Entities =
     take 5 (sort_key (\<lambda>c. - expectedImpact c)
               (directionCandidates graph communities c1 c2 c1Entities c2Entities))
     @ take 5 (sort_key (\<lambda>c. - expectedImpact c)
                 (directionCandidates graph communities c2 c1 c2Entities c1Entities))"

text \<open>
  The candidates of a reported gap are the first five of the merged, sorted list of
  both directions.
\<close>

definition mergedTopFive :: "SimpleGraph \<Rightarrow> (string, nat) jsmap \<Rightarrow> StructuralGapInfo \<Rightarrow> bool" where
  "mergedTopFive g comm gap =
     (bridgeCandidates gap =
        take 5 (sort_key (\<lambda>c. - expectedImpact c)
          (directionCandidates g comm (cluster1 gap) (cluster2 gap)
             (cluster1Entities gap) (cluster2Entities gap)
           @ directionCandidates g comm (cluster2 gap) (cluster1 gap)
               (cluster2Entities gap) (cluster1Entities gap))))"

definition clusterMembers :: "(string, nat) jsmap \<Rightarrow> nat \<Rightarrow> string list" where
  "clusterMembers communities c = map fst (filter (\<lambda>(n, community). community = c) communities)"

definition gapMembers :: "(string, nat) jsmap \<Rightarrow> StructuralGapInfo \<Rightarrow> bool" where
  "gapMembers comm gap =
     (cluster1Entities gap = clusterMembers comm (cluster1 gap) \<and>
      cluster2Entities gap = clusterMembers comm (cluster2 gap))"

definition twoTriangleCommunities :: "(string, nat) jsmap" where
  "twoTriangleCommunities =
     [(''a'', 0), (''b'', 0), (''c'', 0), (''x'', 1), (''y'', 1), (''z'', 1)]"

section \<open>Statistical reweighter (PMICalculator)\<close>

text \<open>
  \<open>[a, b].sort()\<close> orders two strings by their code units; \<open>join\<close> puts the separator
  between the parts.
\<close>

fun str_less :: "string \<Rightarrow> string \<Rightarrow> bool" where
  "str_less [] [] = False"
| "str_less [] (y # ys) = True"
| "str_less (x # xs) [] = False"
| "str_less (x # xs) (y # ys) =
     (if x = y then str_less xs ys else (of_char x :: nat) < of_char y)"

definition sortPair :: "string \<Rightarrow> string \<Rightarrow> string list" where
  "sortPair a b = (if str_less b a then [b, a] else [a, b])"

fun join :: "string \<Rightarrow> string list \<Rightarrow> string" where
  "join sep [] = []"
| "join sep [x] = x"
| "join sep (x # y # ys) = x @ sep @ join sep (y # ys)"

text \<open>
  The numbers of the reweighter are IEEE doubles: \<open>Math.log2\<close> and the division have
  the results \<open>NaN\<close>, \<open>Infinity\<close> and \<open>-Infinity\<close>, and every operation rounds.  The
  reweighter is therefore modelled over an arbitrary arithmetic on a type \<open>'n\<close> of
  numbers: a record of the operations the code uses.  What is proved holds for every such
  arithmetic, in particular for the doubles.
\<close>

record 'n Arith =
  jsNat :: "nat \<Rightarrow> 'n"
  jsAdd :: "'n \<Rightarrow> 'n \<Rightarrow> 'n"
  jsMul :: "'n \<Rightarrow> 'n \<Rightarrow> 'n"
  jsDiv :: "'n \<Rightarrow> 'n \<Rightarrow> 'n"
  jsNeg :: "'n \<Rightarrow> 'n"
  jsLog2 :: "'n \<Rightarrow> 'n"
  jsLess :: "'n \<Rightarrow> 'n \<Rightarrow> bool"
  jsEq :: "'n \<Rightarrow> 'n \<Rightarrow> bool"
  jsMax :: "'n \<Rightarrow> 'n \<Rightarrow> 'n"
  jsMin :: "'n \<Rightarrow> 'n \<Rightarrow> 'n"

record 'n EntityCounts =
  total :: 'n
  entityCounts :: "(string, 'n) jsmap"
  pairCounts :: "(string, 'n) jsmap"

record 'n PMICalculator =
  smoothing :: 'n
  minFrequency :: 'n

record 'n WeightedEdge =
  source :: string
  target :: string
  weight :: 'n

record 'n PMIResult = "'n WeightedEdge" +
  pmiValue :: 'n
  npmiValue :: "'n option"
  cooccurrenceCount :: 'n

record ApplyOptions =
  useNPMI :: "bool option"
  combineWithFrequency :: "bool option"
  filterNegative :: "bool option"

definition pairKey :: "string \<Rightarrow> string \<Rightarrow> string" where
  "pairKey a b = join ''|'' (sortPair a b)"

text \<open>\<open>m.get(k) ?? 0\<close>: only \<open>undefined\<close> is replaced.\<close>

definition count_or_zero :: "'n Arith \<Rightarrow> (string, 'n) jsmap \<Rightarrow> string \<Rightarrow> 'n" where
  "count_or_zero ar m k = (case map_of m k of None \<Rightarrow> jsNat ar 0 | Some x \<Rightarrow> x)"

definition pmi ::
  "'n Arith \<Rightarrow> 'n PMICalculator \<Rightarrow> string \<Rightarrow> string \<Rightarrow> 'n EntityCounts \<Rightarrow> 'n" where
  "pmi ar this entityA entityB counts =
     (let countA = count_or_zero ar (entityCounts counts) entityA;
          countB = count_or_zero ar (entityCounts counts) entityB;
          countAB = count_or_zero ar (pairCounts counts) (pairKey entityA entityB)
      in if jsLess ar countAB (minFrequency this) then jsNat ar 0
         else (let vocabSize = jsNat ar (length (entityCounts counts));
                   pA = jsDiv ar (jsAdd ar countA (smoothing this))
                          (jsAdd ar (total counts) (jsMul ar (smoothing this) vocabSize));
                   pB = jsDiv ar (jsAdd ar countB (smoothing this))
                          (jsAdd ar (total counts) (jsMul ar (smoothing this) vocabSize));
                   pAB = jsDiv ar (jsAdd ar countAB (smoothing this))
                           (jsAdd ar (total counts) (smoothing this))
               in jsLog2 ar (jsDiv ar pAB (jsMul ar pA pB))))"

definition npmi ::
  "'n Arith \<Rightarrow> 'n PMICalculator \<Rightarrow> string \<Rightarrow> string \<Rightarrow> 'n EntityCounts \<Rightarrow> 'n" where
  "npmi ar this entityA entityB counts =
     (let pmiV = pmi ar this entityA entityB counts
      in if jsEq ar pmiV (jsNat ar 0) then jsNat ar 0
         else (let countAB = count_or_zero ar (pairCounts counts) (pairKey entityA entityB);
                   pAB = jsDiv ar (jsAdd ar countAB (smoothing this))
                           (jsAdd ar (total counts) (smoothing this));
                   denominator = jsNeg ar (jsLog2 ar pAB)
               in if jsEq ar denominator (jsNat ar 0) then jsNat ar 0
                  else jsMax ar (jsNeg ar (jsNat ar 1))
                         (jsMin ar (jsNat ar 1) (jsDiv ar pmiV denominator))))"

text \<open>An option left out of the options object takes its default, \<open>true\<close>.\<close>

definition flag :: "bool option \<Rightarrow> bool" where
  "flag b = (case b of None \<Rightarrow> True | Some v \<Rightarrow> v)"

definition edgePMI ::
  "'n Arith \<Rightarrow> 'n PMICalculator \<Rightarrow> 'n EntityCounts \<Rightarrow> bool \<Rightarrow> 'n WeightedEdge \<Rightarrow> 'n" where
  "edgePMI ar this counts byNPMI edge =
     (if byNPMI then npmi ar this (source edge) (target edge) counts
      else pmi ar this (source edge) (target edge) counts)"

definition applyStep ::
  "'n Arith \<Rightarrow> 'n PMICalculator \<Rightarrow> 'n EntityCounts \<Rightarrow> ApplyOptions \<Rightarrow> 'n WeightedEdge
     \<Rightarrow> 'n PMIResult list \<Rightarrow> 'n PMIResult list" where
  "applyStep ar this counts options edge results =
     (let pmiV = edgePMI ar this counts (flag (useNPMI options)) edge
      in if flag (filterNegative options) \<and> jsLess ar pmiV (jsNat ar 0) then results
         else (let cooccurrence =
                     count_or_zero ar (pairCounts counts) (pairKey (source edge) (target edge));
                   finalWeight = (if flag (combineWithFrequency options)
                                  then jsMul ar (weight edge)
                                         (jsAdd ar (jsNat ar 1) (jsMax ar (jsNat ar 0) pmiV))
                                  else jsMax ar (jsNat ar 0) pmiV)
               in results @ [\<lparr>source = source edge, target = target edge,
                               weight = finalWeight, pmiValue = pmiV,
                               npmiValue = (if flag (useNPMI options) then Some pmiV else None),
                               cooccurrenceCount = cooccurrence\<rparr>]))"

definition applyToEdges ::
  "'n Arith \<Rightarrow> 'n PMICalculator \<Rightarrow> 'n WeightedEdge list \<Rightarrow> 'n EntityCounts \<Rightarrow> ApplyOptions
     \<Rightarrow> 'n PMIResult list" where
  "applyToEdges ar this edgeList counts options =
     fold (applyStep ar this counts options) edgeList []"

text \<open>The output edge the combined policy gives for an input edge it keeps.\<close>

definition combinedResult ::
  "'n Arith \<Rightarrow> 'n PMICalculator \<Rightarrow> 'n EntityCounts \<Rightarrow> bool \<Rightarrow> 'n WeightedEdge
     \<Rightarrow> 'n PMIResult" where
  "combinedResult ar this counts byNPMI edge =
     \<lparr>source = source edge, target = target edge,
      weight = jsMul ar (weight edge)
                 (jsAdd ar (jsNat ar 1) (jsMax ar (jsNat ar 0) (edgePMI ar this counts byNPMI edge))),
      pmiValue = edgePMI ar this counts byNPMI edge,
      npmiValue = (if byNPMI then Some (edgePMI ar this counts byNPMI edge) else None),
      cooccurrenceCount =
        count_or_zero ar (pairCounts counts) (pairKey (source edge) (target edge))\<rparr>"

text \<open>
  An arithmetic for examples: the reals with the special values of the doubles.  It is
  exact on finite values (it does not round and has one zero); the special values follow
  the rules of the doubles: \<open>x / 0\<close> is \<open>NaN\<close> or an infinity, \<open>log2\<close> of 0 is
  \<open>-Infinity\<close> and of a negative number \<open>NaN\<close>, every comparison with \<open>NaN\<close> is false, and
  \<open>Math.max\<close> and \<open>Math.min\<close> return \<open>NaN\<close> when an argument is \<open>NaN\<close>.
\<close>

datatype JsNumber = Finite real | PosInfinity | NegInfinity | NaN

fun xNeg :: "JsNumber \<Rightarrow> JsNumber" where
  "xNeg (Finite a) = Finite (- a)"
| "xNeg PosInfinity = NegInfinity"
| "xNeg NegInfinity = PosInfinity"
| "xNeg NaN = NaN"

fun xAdd :: "JsNumber \<Rightarrow> JsNumber \<Rightarrow> JsNumber" where
  "xAdd NaN y = NaN"
| "xAdd x NaN = NaN"
| "xAdd (Finite a) (Finite b) = Finite (a + b)"
| "xAdd PosInfinity NegInfinity = NaN"
| "xAdd NegInfinity PosInfinity = NaN"
| "xAdd PosInfinity y = PosInfinity"
| "xAdd NegInfinity y = NegInfinity"
| "xAdd (Finite a) y = y"

text \<open>The sign of a number that is not \<open>NaN\<close>: \<open>-1\<close>, \<open>0\<close> or \<open>1\<close>.\<close>

fun xSign :: "JsNumber \<Rightarrow> real" where
  "xSign (Finite a) = sgn a"
| "xSign PosInfinity = 1"
| "xSign NegInfinity = - 1"
| "xSign NaN = 0"

definition signedInfinity :: "real \<Rightarrow> JsNumber" where
  "signedInfinity s = (if s = 0 then NaN else if 0 < s then PosInfinity else NegInfinity)"

fun xMul :: "JsNumber \<Rightarrow> JsNumber \<Rightarrow> JsNumber" where
  "xMul NaN y = NaN"
| "xMul x NaN = NaN"
| "xMul (Finite a) (Finite b) = Finite (a * b)"
| "xMul x y = signedInfinity (xSign x * xSign y)"

fun xDiv :: "JsNumber \<Rightarrow> JsNumber \<Rightarrow> JsNumber" where
  "xDiv NaN y = NaN"
| "xDiv x NaN = NaN"
| "xDiv (Finite a) (Finite b) = (if b = 0 then signedInfinity (sgn a) else Finite (a / b))"
| "xDiv (Finite a) y = Finite 0"
| "xDiv x (Finite b) = signedInfinity (xSign x * (if b < 0 then - 1 else 1))"
| "xDiv x y = NaN"

fun xLog2 :: "JsNumber \<Rightarrow> JsNumber" where
  "xLog2 (Finite a) = (if a < 0 then NaN else if a = 0 then NegInfinity else Finite (log 2 a))"
| "xLog2 PosInfinity = PosInfinity"
| "xLog2 NegInfinity = NaN"
| "xLog2 NaN = NaN"

fun xLess :: "JsNumber \<Rightarrow> JsNumber \<Rightarrow> bool" where
  "xLess NaN y = False"
| "xLess x NaN = False"
| "xLess (Finite a) (Finite b) = (a < b)"
| "xLess x PosInfinity = (x \<noteq> PosInfinity)"
| "xLess NegInfinity y = (y \<noteq> NegInfinity)"
| "xLess x y = False"

definition xEq :: "JsNumber \<Rightarrow> JsNumber \<Rightarrow> bool" where
  "xEq x y = (x \<noteq> NaN \<and> x = y)"

definition xMax :: "JsNumber \<Rightarrow> JsNumber \<Rightarrow> JsNumber" where
  "xMax x y = (if x = NaN \<or> y = NaN then NaN else if xLess x y then y else x)"

definition xMin :: "JsNumber \<Rightarrow> JsNumber \<Rightarrow> JsNumber" where
  "xMin x y = (if x = NaN \<or> y = NaN then NaN else if xLess y x then y else x)"

definition extendedArith :: "JsNumber Arith" where
  "extendedArith =
     \<lparr>jsNat = (\<lambda>n. Finite (real n)), jsAdd = xAdd, jsMul = xMul, jsDiv = xDiv,
      jsNeg = xNeg, jsLog2 = xLog2, jsLess = xLess, jsEq = xEq, jsMax = xMax, jsMin = xMin\<rparr>"

text \<open>
  Example input: 8 windows, every entity in 4 of them; the pair \<open>a, b\<close> was seen once,
  the pair \<open>c, d\<close> 4 times and the pair \<open>a, d\<close> never.  With smoothing 0 and minimum
  frequency 0 the pair \<open>a, d\<close> has the probability 0, whose logarithm is \<open>-Infinity\<close>.
\<close>

definition pmiExampleCounts :: "JsNumber EntityCounts" where
  "pmiExampleCounts =
     \<lparr>total = Finite 8,
      entityCounts = [(''a'', Finite 4), (''b'', Finite 4), (''c'', Finite 4), (''d'', Finite 4)],
      pairCounts = [(''a|b'', Finite 1), (''c|d'', Finite 4)]\<rparr>"

definition pmiExampleEdges :: "JsNumber WeightedEdge list" where
  "pmiExampleEdges =
     [\<lparr>source = ''b'', target = ''a'', weight = Finite 3\<rparr>,
      \<lparr>source = ''c'', target = ''d'', weight = Finite 5\<rparr>,
      \<lparr>source = ''a'', target = ''d'', weight = Finite 7\<rparr>]"

definition pmiExampleCalculator :: "JsNumber PMICalculator" where
  "pmiExampleCalculator = \<lparr>smoothing = Finite 0, minFrequency = Finite 0\<rparr>"

section \<open>Co-occurrence builders (graph/cooccurrence.ts)\<close>

record CooccurrenceOptions =
  windowSize :: "real option"
  minWeight :: "real option"
  normalize :: "bool option"
  usePositions :: "bool option"

record MentionWithEntity =
  mentionEntityId :: string
  mentionEntityName :: string
  mentionStart :: real
  mentionEnd :: real

record WordWithPosition =
  word :: string
  wordStart :: nat
  wordEnd :: nat
  wordIndex :: nat

definition flattenMentions :: "Entity list \<Rightarrow> MentionWithEntity list" where
  "flattenMentions ents =
     concat (map (\<lambda>entity.
                    map (\<lambda>mention. \<lparr>mentionEntityId = eid entity,
                                      mentionEntityName = name entity,
                                      mentionStart = startPosition mention,
                                      mentionEnd = endPosition mention\<rparr>)
                        (mentions entity))
                 ents)"

text \<open>
  The canonical edge key \<open>[a, b].sort().join('|||')\<close> and the counting step
  \<open>cooccurrences.set(key, (cooccurrences.get(key) || 0) + 1)\<close>.
\<close>

definition edgeKey :: "string \<Rightarrow> string \<Rightarrow> string" where
  "edgeKey a b = join ''|||'' (sortPair a b)"

definition countPair :: "(string, real) jsmap \<Rightarrow> string \<Rightarrow> string \<Rightarrow> (string, real) jsmap" where
  "countPair cooccurrences a b =
     (let key = edgeKey a b
      in map_set cooccurrences key (num_or (map_of cooccurrences key) 0 + 1))"

text \<open>The character-position window: the inner loop over \<open>j > i\<close> stops at the first
  mention outside the window.\<close>

fun innerPositions ::
  "real \<Rightarrow> MentionWithEntity \<Rightarrow> MentionWithEntity list \<Rightarrow> (string, real) jsmap
     \<Rightarrow> (string, real) jsmap" where
  "innerPositions windowChars mi [] cooccurrences = cooccurrences"
| "innerPositions windowChars mi (mj # later) cooccurrences =
     (let dist = mentionStart mj - mentionEnd mi
      in if dist > windowChars then cooccurrences
         else if dist < 0 then innerPositions windowChars mi later cooccurrences
         else if mentionEntityId mi = mentionEntityId mj
              then innerPositions windowChars mi later cooccurrences
         else innerPositions windowChars mi later
                (countPair cooccurrences (mentionEntityId mi) (mentionEntityId mj)))"

fun outerPositions ::
  "real \<Rightarrow> MentionWithEntity list \<Rightarrow> (string, real) jsmap \<Rightarrow> (string, real) jsmap" where
  "outerPositions windowChars [] cooccurrences = cooccurrences"
| "outerPositions windowChars (mi # later) cooccurrences =
     outerPositions windowChars later (innerPositions windowChars mi later cooccurrences)"

text \<open>
  \<open>tokenizeWithPositions\<close>: the matches of \<open>/\b\w+\b/g\<close> are the maximal runs of word
  characters (letters, digits and the underscore).
\<close>

definition isWordChar :: "char \<Rightarrow> bool" where
  "isWordChar c =
     (let n = (of_char c :: nat)
      in (48 \<le> n \<and> n \<le> 57) \<or> (65 \<le> n \<and> n \<le> 90) \<or> n = 95 \<or> (97 \<le> n \<and> n \<le> 122))"

fun scanWords :: "string \<Rightarrow> nat \<Rightarrow> (nat \<times> string) option \<Rightarrow> (string \<times> nat \<times> nat) list" where
  "scanWords [] pos None = []"
| "scanWords [] pos (Some (s, w)) = [(rev w, s, pos)]"
| "scanWords (c # cs) pos None =
     (if isWordChar c then scanWords cs (pos + 1) (Some (pos, [c]))
      else scanWords cs (pos + 1) None)"
| "scanWords (c # cs) pos (Some (s, w)) =
     (if isWordChar c then scanWords cs (pos + 1) (Some (s, c # w))
      else (rev w, s, pos) # scanWords cs (pos + 1) None)"

definition tokenizeWithPositions :: "string \<Rightarrow> WordWithPosition list" where
  "tokenizeWithPositions txt =
     map (\<lambda>(i, (w, s, e)). \<lparr>word = w, wordStart = s, wordEnd = e, wordIndex = i\<rparr>)
         (enumerate 0 (scanWords txt 0 None))"

text \<open>\<open>mapMentionsToWords\<close>, as the word index of each mention (\<open>None\<close>: no entry).\<close>

definition mentionWordIndex :: "WordWithPosition list \<Rightarrow> MentionWithEntity \<Rightarrow> nat option" where
  "mentionWordIndex ws mention =
     map_option wordIndex
       (find (\<lambda>w. real (wordStart w) \<le> mentionStart mention
                   \<and> real (wordEnd w) \<ge> mentionStart mention) ws)"

fun innerWords ::
  "real \<Rightarrow> MentionWithEntity \<Rightarrow> nat \<Rightarrow> (MentionWithEntity \<times> nat option) list
     \<Rightarrow> (string, real) jsmap \<Rightarrow> (string, real) jsmap" where
  "innerWords wsize mi wordIndex1 [] cooccurrences = cooccurrences"
| "innerWords wsize mi wordIndex1 ((mj, None) # later) cooccurrences =
     innerWords wsize mi wordIndex1 later cooccurrences"
| "innerWords wsize mi wordIndex1 ((mj, Some wordIndex2) # later) cooccurrences =
     (let wordDistance = \<bar>real wordIndex2 - real wordIndex1\<bar>
      in if wordDistance > wsize then innerWords wsize mi wordIndex1 later cooccurrences
         else if mentionEntityId mi = mentionEntityId mj
              then innerWords wsize mi wordIndex1 later cooccurrences
         else innerWords wsize mi wordIndex1 later
                (countPair cooccurrences (mentionEntityId mi) (mentionEntityId mj)))"

fun outerWords ::
  "real \<Rightarrow> (MentionWithEntity \<times> nat option) list \<Rightarrow> (string, real) jsmap
     \<Rightarrow> (string, real) jsmap" where
  "outerWords wsize [] cooccurrences = cooccurrences"
| "outerWords wsize ((mi, None) # later) cooccurrences = outerWords wsize later cooccurrences"
| "outerWords wsize ((mi, Some wordIndex1) # later) cooccurrences =
     outerWords wsize later (innerWords wsize mi wordIndex1 later cooccurrences)"

definition calculateCooccurrences ::
  "MentionWithEntity list \<Rightarrow> string \<Rightarrow> real \<Rightarrow> bool \<Rightarrow> (string, real) jsmap" where
  "calculateCooccurrences ms sourceText wsize byPositions =
     (if byPositions
      then (let windowChars = wsize * 6 in outerPositions windowChars ms [])
      else (let ws = tokenizeWithPositions sourceText
            in outerWords wsize (map (\<lambda>m. (m, mentionWordIndex ws m)) ms) []))"

text \<open>\<open>key.split('|||')\<close> for a separator that is not empty.\<close>

function splitOn :: "string \<Rightarrow> string \<Rightarrow> string \<Rightarrow> string list" where
  "splitOn sep acc [] = [rev acc]"
| "splitOn sep acc (c # cs) =
     (if sep \<noteq> [] \<and> startsWith (c # cs) sep
      then rev acc # splitOn sep [] (drop (length sep - 1) cs)
      else splitOn sep (c # acc) cs)"
  by pat_completeness auto
termination
  by (relation "measure (\<lambda>(sep, acc, s). length s)") auto

text \<open>
  The loop that adds the edges: \<open>const [source, target] = key.split('|||')\<close> takes the
  first two parts.  Every key was built by \<open>join\<close> and has at least two parts.
\<close>

definition addCountedEdge :: "real \<Rightarrow> string \<times> real \<Rightarrow> SimpleGraph \<Rightarrow> SimpleGraph" where
  "addCountedEdge minW = (\<lambda>(key, w) graph.
     if w \<ge> minW
     then (case splitOn ''|||'' [] key of
             source' # target' # others \<Rightarrow> addEdge graph source' target' w
           | parts \<Rightarrow> graph)
     else graph)"

definition normalizeWeights :: "SimpleGraph \<Rightarrow> SimpleGraph" where
  "normalizeWeights graph =
     (let maxWeight = fold (\<lambda>(n, neighbors) m. fold (\<lambda>(t, w) m'. max m' w) neighbors m)
                           (edges graph) 0
      in if maxWeight = 0 then graph
         else graph\<lparr>edges := map (\<lambda>(n, neighbors).
                                     (n, map (\<lambda>(t, w). (t, w / maxWeight)) neighbors))
                                  (edges graph)\<rparr>)"

definition buildCooccurrenceGraph ::
  "Entity list \<Rightarrow> string \<Rightarrow> CooccurrenceOptions \<Rightarrow> SimpleGraph" where
  "buildCooccurrenceGraph ents sourceText options =
     (let wsize = (case windowSize options of None \<Rightarrow> 5 | Some x \<Rightarrow> x);
          minW = (case minWeight options of None \<Rightarrow> 2 | Some x \<Rightarrow> x);
          norm = (case normalize options of None \<Rightarrow> False | Some b \<Rightarrow> b);
          byPositions = (case usePositions options of None \<Rightarrow> True | Some b \<Rightarrow> b);
          ms = sort_key mentionStart (flattenMentions ents);
          cooccurrences = calculateCooccurrences ms sourceText wsize byPositions;
          graph = fold (addCountedEdge minW) cooccurrences createGraph
      in if norm then normalizeWeights graph else graph)"

text \<open>
  \<open>sourceText.split(/[.!?]+\s+/)\<close>: a separator is a maximal run of \<open>.\<close>, \<open>!\<close>, \<open>?\<close> that
  is followed by white space, together with that white space.
\<close>

definition isSentenceEnd :: "char \<Rightarrow> bool" where
  "isSentenceEnd c = (c = CHR ''.'' \<or> c = CHR ''!'' \<or> c = CHR ''?'')"

definition isSpace :: "char \<Rightarrow> bool" where
  "isSpace c = (let n = (of_char c :: nat) in (9 \<le> n \<and> n \<le> 13) \<or> n = 32 \<or> n = 160)"

function splitSentences :: "string \<Rightarrow> string \<Rightarrow> string list" where
  "splitSentences acc [] = [rev acc]"
| "splitSentences acc (c # cs) =
     (if isSentenceEnd c
      then (case dropWhile isSentenceEnd cs of
              [] \<Rightarrow> splitSentences (c # acc) cs
            | s # after \<Rightarrow>
                if isSpace s then rev acc # splitSentences [] (dropWhile isSpace after)
                else splitSentences (c # acc) cs)
      else splitSentences (c # acc) cs)"
  by pat_completeness auto
termination
proof (relation "measure (\<lambda>(acc, s). length s)")
  fix acc :: string and c s :: char and cs after :: string
  assume "dropWhile isSentenceEnd cs = s # after"
  then have "length (s # after) \<le> length cs"
    using length_dropWhile_le[of isSentenceEnd cs] by simp
  moreover have "length (dropWhile isSpace after) \<le> length after"
    by (rule length_dropWhile_le)
  ultimately show "(([], dropWhile isSpace after), (acc, c # cs)) \<in> measure (\<lambda>(acc, s). length s)"
    by simp
qed auto

definition entitiesInSentence :: "Entity list \<Rightarrow> real \<Rightarrow> real \<Rightarrow> Entity list" where
  "entitiesInSentence ents charOffset sentenceEnd =
     filter (\<lambda>entity. list_ex (\<lambda>mention. startPosition mention \<ge> charOffset
                                        \<and> endPosition mention \<le> sentenceEnd)
                               (mentions entity))
            ents"

definition countSentencePair :: "Entity \<times> Entity \<Rightarrow> (string, real) jsmap \<Rightarrow> (string, real) jsmap" where
  "countSentencePair = (\<lambda>(ei, ej) cooccurrences.
     if eid ei = eid ej then cooccurrences
     else countPair cooccurrences (eid ei) (eid ej))"

fun sentenceLoop ::
  "Entity list \<Rightarrow> string list \<Rightarrow> real \<Rightarrow> (string, real) jsmap \<Rightarrow> (string, real) jsmap" where
  "sentenceLoop ents [] charOffset cooccurrences = cooccurrences"
| "sentenceLoop ents (sentence # sentences) charOffset cooccurrences =
     (let sentenceEnd = charOffset + real (length sentence);
          inSentence = entitiesInSentence ents charOffset sentenceEnd;
          cooccurrences' = fold countSentencePair (index_pairs inSentence) cooccurrences
      in sentenceLoop ents sentences (sentenceEnd + 2) cooccurrences')"

definition buildSentenceCooccurrenceGraph ::
  "Entity list \<Rightarrow> string \<Rightarrow> CooccurrenceOptions \<Rightarrow> SimpleGraph" where
  "buildSentenceCooccurrenceGraph ents sourceText options =
     (let minW = (case minWeight options of None \<Rightarrow> 2 | Some x \<Rightarrow> x);
          sentences = splitSentences [] sourceText;
          cooccurrences = sentenceLoop ents sentences 0 []
      in fold (addCountedEdge minW) cooccurrences createGraph)"

definition defaultCooccurrence :: CooccurrenceOptions where
  "defaultCooccurrence =
     \<lparr>windowSize = None, minWeight = None, normalize = None, usePositions = None\<rparr>"

text \<open>
  Example input: two entities whose ids are \<open>x\<close> and \<open>x|||y\<close>, mentioned next to each
  other in each of the two sentences of the text \<open>x xy. xy x\<close>.
\<close>

definition mkMention :: "real \<Rightarrow> real \<Rightarrow> string \<Rightarrow> EntityMention" where
  "mkMention s e t = \<lparr>startPosition = s, endPosition = e, mentionText = t, sentenceIndex = 0\<rparr>"

definition pipeEntities :: "Entity list" where
  "pipeEntities =
     [\<lparr>eid = ''x'', name = ''x'', etype = Concept, confidence = 1, relevance = 1,
       mentions = [mkMention 0 1 ''x'', mkMention 9 10 ''x'']\<rparr>,
      \<lparr>eid = ''x|||y'', name = ''xy'', etype = Concept, confidence = 1, relevance = 1,
       mentions = [mkMention 2 4 ''xy'', mkMention 6 8 ''xy'']\<rparr>]"

definition pipeText :: string where
  "pipeText = ''x xy. xy x''"

text \<open>
  A second example input, at the same positions of the same text: the ids are \<open>|\<close>
  and \<open>||\<close>, neither of which contains the separator \<open>|||\<close>.
\<close>

definition barEntities :: "Entity list" where
  "barEntities =
     [\<lparr>eid = ''|'', name = ''x'', etype = Concept, confidence = 1, relevance = 1,
       mentions = [mkMention 0 1 ''x'', mkMention 9 10 ''x'']\<rparr>,
      \<lparr>eid = ''||'', name = ''xy'', etype = Concept, confidence = 1, relevance = 1,
       mentions = [mkMention 2 4 ''xy'', mkMention 6 8 ''xy'']\<rparr>]"

text \<open>
  For stating properties: every entry of a co-occurrence map counts a pair of two
  different ids taken from \<open>ids\<close>, under the key of that pair, at least once.
\<close>

definition pairCountsOf :: "string set \<Rightarrow> (string, real) jsmap \<Rightarrow> bool" where
  "pairCountsOf ids cooccurrences =
     list_all (\<lambda>(key, w). 1 \<le> w \<and> (\<exists>a b. a \<in> ids \<and> b \<in> ids \<and> a \<noteq> b \<and> key = edgeKey a b))
       cooccurrences"

section \<open>Properties of the graph store\<close>

lemma map_of_map_set: "map_of (map_set m k v) = (map_of m)(k \<mapsto> v)"
  by (simp add: map_set_def update_conv')

lemma edgeAt_addNode: "edgeAt (addNode g n) a b = edgeAt g a b"
  by (auto simp: edgeAt_def addNode_def adjacency_def Let_def map_has_def map_of_map_set
      split: option.splits)

lemma edgeAt_set_edges:
  "edgeAt (g\<lparr>edges := map_set (edges g) n m\<rparr>) a b = (if a = n then map_of m b else edgeAt g a b)"
  by (simp add: edgeAt_def adjacency_def map_of_map_set)

lemma edgeAt_write:
  "edgeAt (g\<lparr>edges := map_set (edges g) n
              (map_set (adjacency g n) k (num_or (map_of (adjacency g n) k) 0 + w))\<rparr>) a b
   = (if a = n \<and> b = k then Some (num_or (edgeAt g n k) 0 + w) else edgeAt g a b)"
  by (simp add: edgeAt_set_edges map_of_map_set) (simp add: edgeAt_def)

lemma edgeAt_addEdge:
  "edgeAt (addEdge g s t w) a b =
     (if s = t then (if a = s \<and> b = s then Some (num_or (edgeAt g s s) 0 + w + w)
                     else edgeAt g a b)
      else if a = s \<and> b = t then Some (num_or (edgeAt g s t) 0 + w)
      else if a = t \<and> b = s then Some (num_or (edgeAt g t s) 0 + w)
      else edgeAt g a b)"
proof -
  define g1 where "g1 = addNode (addNode g s) t"
  define g2 where "g2 = g1\<lparr>edges := map_set (edges g1) s
                 (map_set (adjacency g1 s) t (num_or (map_of (adjacency g1 s) t) 0 + w))\<rparr>"
  define g3 where "g3 = g2\<lparr>edges := map_set (edges g2) t
                 (map_set (adjacency g2 t) s (num_or (map_of (adjacency g2 t) s) 0 + w))\<rparr>"
  have e1: "edgeAt g1 x y = edgeAt g x y" for x y by (simp add: g1_def edgeAt_addNode)
  have e2: "edgeAt g2 x y =
      (if x = s \<and> y = t then Some (num_or (edgeAt g s t) 0 + w) else edgeAt g x y)" for x y
    unfolding g2_def edgeAt_write by (simp add: e1)
  have e3: "edgeAt g3 x y =
      (if x = t \<and> y = s then Some (num_or (edgeAt g2 t s) 0 + w) else edgeAt g2 x y)" for x y
    unfolding g3_def edgeAt_write by simp
  have ae: "addEdge g s t w = g3"
    by (simp add: addEdge_def Let_def g3_def g2_def g1_def)
  show ?thesis unfolding ae e3 e2 by simp
qed

lemma addEdge_symmetric:
  assumes "symmetricWeights g"
  shows "symmetricWeights (addEdge g s t w)"
  unfolding symmetricWeights_def
proof (intro allI)
  fix a b
  have sym: "edgeAt g x y = edgeAt g y x" for x y
    using assms unfolding symmetricWeights_def by blast
  show "edgeAt (addEdge g s t w) a b = edgeAt (addEdge g s t w) b a"
  proof (cases "s = t")
    case True
    then show ?thesis using sym[of a b] by (simp add: edgeAt_addEdge)
  next
    case False
    consider (st) "a = s" "b = t" | (ts) "a = t" "b = s"
      | (other) "\<not> (a = s \<and> b = t)" "\<not> (a = t \<and> b = s)"
      by blast
    then show ?thesis
    proof cases
      case st
      then show ?thesis using False sym[of s t] by (simp add: edgeAt_addEdge)
    next
      case ts
      then show ?thesis using False sym[of s t] by (simp add: edgeAt_addEdge)
    next
      case other
      then have "edgeAt (addEdge g s t w) a b = edgeAt g a b"
        "edgeAt (addEdge g s t w) b a = edgeAt g b a"
        using False by (auto simp: edgeAt_addEdge)
      then show ?thesis using sym[of a b] by simp
    qed
  qed
qed

lemma nonNegative_lookup: "nonNegativeWeights g \<Longrightarrow> 0 \<le> num_or (edgeAt g a b) 0"
  by (cases "edgeAt g a b") (auto simp: nonNegativeWeights_def)

lemma addEdge_nonNegative:
  assumes "nonNegativeWeights g" and "0 \<le> w"
  shows "nonNegativeWeights (addEdge g s t w)"
  unfolding nonNegativeWeights_def
proof (intro allI impI)
  fix a b v
  assume v: "edgeAt (addEdge g s t w) a b = Some v"
  have old: "edgeAt g a b = Some v \<Longrightarrow> 0 \<le> v"
    using assms(1) unfolding nonNegativeWeights_def by blast
  have l1: "0 \<le> num_or (edgeAt g s t) 0 + w" "0 \<le> num_or (edgeAt g t s) 0 + w"
    "0 \<le> num_or (edgeAt g s s) 0 + w + w"
    using nonNegative_lookup[OF assms(1)] assms(2) by (simp_all add: add_nonneg_nonneg)
  show "0 \<le> v"
    using v old l1 by (simp add: edgeAt_addEdge split: if_splits)
qed

lemma addEdge_noSelfLoops:
  assumes "noSelfLoops g" and "s \<noteq> t"
  shows "noSelfLoops (addEdge g s t w)"
  unfolding noSelfLoops_def
proof (intro allI)
  fix a
  have "edgeAt g a a = None" using assms(1) unfolding noSelfLoops_def by blast
  then show "edgeAt (addEdge g s t w) a a = None"
    using assms(2) by (simp add: edgeAt_addEdge)
qed

lemma createGraph_invariant:
  "symmetricWeights createGraph" "nonNegativeWeights createGraph" "noSelfLoops createGraph"
  by (simp_all add: symmetricWeights_def nonNegativeWeights_def noSelfLoops_def edgeAt_def
      adjacency_def createGraph_def)

section \<open>Properties of betweenness centrality\<close>

lemma zeros_fold:
  "distinct (map fst bc @ ns) \<Longrightarrow>
   fold (\<lambda>node bc. map_set bc node (0::real)) ns bc = bc @ map (\<lambda>n. (n, 0)) ns"
proof (induction ns arbitrary: bc)
  case Nil
  then show ?case by simp
next
  case (Cons n ns)
  have "n \<notin> fst ` set bc" using Cons.prems by auto
  then have app: "map_set bc n (0::real) = bc @ [(n, 0)]"
    by (induction bc) (auto simp: map_set_def)
  have "distinct (map fst (map_set bc n (0::real)) @ ns)" using Cons.prems by (simp add: app)
  from Cons.IH[OF this] show ?case by (simp add: app)
qed

text \<open>
  The second half of C1 holds: a graph with fewer than 3 nodes gets the map that assigns
  0 to every node, and the traversal is never started.
\<close>

lemma betweenness_small_graph:
  assumes "distinct (nodes g)" and "length (nodes g) < 3"
  shows "betweennessCentrality g = Some (map (\<lambda>n. (n, 0)) (nodes g))"
  using assms zeros_fold[of "[]" "nodes g"] by (simp add: betweennessCentrality_def)

lemma pathABC_built: "addEdge (addEdge createGraph ''a'' ''b'' 1) ''b'' ''c'' 1 = pathABC"
  by (simp add: addEdge_def addNode_def createGraph_def pathABC_def set_add_def map_has_def
      map_set_def adjacency_def Let_def)

text \<open>
  The first half of C1 fails on the code.  On the path \<open>a - b - c\<close> the middle node gets
  the score 2, and on the path \<open>a - b - c - d\<close> the two inner nodes get 4/3: summing
  over all sources counts every pair of end points twice, and the sum is multiplied by
  \<open>2 / ((n - 1) (n - 2))\<close> without being halved.
\<close>

theorem betweenness_path_exceeds_one:
  "betweennessCentrality pathABC = Some [(''a'', 0), (''b'', 2), (''c'', 0)] \<and>
   betweennessCentrality pathABCD
     = Some [(''a'', 0), (''b'', 4 / 3), (''c'', 4 / 3), (''d'', 0)]"
  by code_simp

section \<open>Properties of the community detector\<close>

subsection \<open>Average clustering coefficient\<close>

lemma fold_totalCoeff:
  "fold (\<lambda>node totalCoeff.
            if length (getNeighbors g node) < 2 then totalCoeff
            else totalCoeff + localCoefficient g node) ns acc
   = acc + sum_list (map (localCoefficient g) (filter (\<lambda>node. 2 \<le> getDegree g node) ns))"
  by (induction ns arbitrary: acc) (auto simp: getNeighbors_def getDegree_def)

text \<open>
  C3, as stated, fails.  On the triangle \<open>a, b, c\<close> with a pendant node \<open>d\<close> hanging
  off \<open>a\<close>, the three nodes of degree at least 2 have local coefficients 1/3, 1 and 1;
  their mean is 7/9, but the function divides the same total by all four nodes and
  returns 7/12.
\<close>

theorem averageClustering_not_qualifying_mean:
  "averageClusteringCoefficient clusterExample = 7 / 12 \<and>
   qualifyingMean clusterExample = 7 / 9 \<and>
   averageClusteringCoefficient clusterExample \<noteq> qualifyingMean clusterExample"
  by (simp add: averageClusteringCoefficient_def qualifyingMean_def clusterExample_def
      getNeighbors_def getDegree_def adjacency_def localCoefficient_def neighborTriangles_def
      map_has_def Let_def)

text \<open>
  C3, amended.  \<open>averageClusteringCoefficient\<close> returns the sum, over the nodes of
  degree at least 2, of (edges among the node's neighbours divided by the number of
  neighbour pairs), divided by the number of all nodes of the graph: a node of degree
  below 2 adds nothing to the numerator and is still counted in the denominator.  The
  empty graph gives 0.
\<close>

theorem averageClustering_over_all_nodes:
  "averageClusteringCoefficient g =
     (if nodes g = [] then 0
      else sum_list (map (localCoefficient g)
                      (filter (\<lambda>node. 2 \<le> getDegree g node) (nodes g)))
           / real (length (nodes g)))"
  by (simp add: averageClusteringCoefficient_def fold_totalCoeff)

theorem averageClustering_over_all_nodes_witness:
  "averageClusteringCoefficient clusterExample =
     sum_list (map (localCoefficient clusterExample)
                (filter (\<lambda>node. 2 \<le> getDegree clusterExample node) (nodes clusterExample)))
     / real (length (nodes clusterExample)) \<and>
   length (nodes clusterExample) = 4 \<and>
   filter (\<lambda>node. 2 \<le> getDegree clusterExample node) (nodes clusterExample)
     = [''a'', ''b'', ''c'']"
  using averageClustering_over_all_nodes[of clusterExample]
  by (simp add: clusterExample_def getDegree_def adjacency_def)

subsection \<open>Small graphs\<close>

text \<open>
  C6, as stated, fails for a graph of one node: the assignment returned has one entry,
  the node with community 0.
\<close>

theorem detectCommunities_single_not_empty:
  "detectCommunities \<lparr>nodes = [''a''], edges = [(''a'', [])]\<rparr> = [(''a'', Some 0)] \<and>
   detectCommunities \<lparr>nodes = [''a''], edges = [(''a'', [])]\<rparr> \<noteq> []"
  by (simp add: detectCommunities_def)

text \<open>
  C6, amended.  For every empty graph \<open>detectCommunities\<close> returns the empty
  assignment; for every graph of exactly one node it returns the assignment with the
  single entry that maps this node to community 0.
\<close>

theorem detectCommunities_small:
  "(nodes g = [] \<longrightarrow> detectCommunities g = []) \<and>
   (nodes g = [n] \<longrightarrow> detectCommunities g = [(n, Some 0)])"
  by (simp add: detectCommunities_def)

theorem detectCommunities_small_witness:
  "detectCommunities createGraph = [] \<and>
   detectCommunities (addNode createGraph ''a'') = [(''a'', Some 0)]"
  using detectCommunities_small[of createGraph]
    detectCommunities_small[of "addNode createGraph ''a''" "''a''"]
  by (simp add: createGraph_def addNode_def set_add_def Let_def)

subsection \<open>Coverage and contiguous ids\<close>

lemma map_set_keys:
  "map fst (map_set m k v) = (if k \<in> set (map fst m) then map fst m else map fst m @ [k])"
  by (simp add: map_set_def update_keys)

lemma init_fold_keys:
  "distinct (map fst c @ ns) \<Longrightarrow>
   map fst (fst (fold (\<lambda>node (communities, communityId).
                 (map_set communities node (Some communityId), communityId + 1)) ns (c, i)))
   = map fst c @ ns"
proof (induction ns arbitrary: c i)
  case Nil
  then show ?case by simp
next
  case (Cons n ns)
  have "n \<notin> set (map fst c)" using Cons.prems by auto
  then have k: "map fst (map_set c n (Some i)) = map fst c @ [n]"
    by (simp add: map_set_keys)
  have "distinct (map fst (map_set c n (Some i)) @ ns)"
    using Cons.prems by (simp add: k)
  from Cons.IH[OF this, of "i + 1"] show ?case by (simp add: k)
qed

lemma initCommunities_keys:
  assumes "distinct ns"
  shows "map fst (initCommunities ns) = ns"
proof -
  have "distinct (map fst ([] :: (string \<times> nat option) list) @ ns)"
    using assms by simp
  from init_fold_keys[OF this, of 0] show ?thesis
    unfolding initCommunities_def by (simp only: list.map append_Nil)
qed

lemma moveNode_keys:
  "node \<in> set (map fst c) \<Longrightarrow> map fst (fst (moveNode g node (c, imp))) = map fst c"
  by (simp add: moveNode_def Let_def map_set_keys split: prod.splits)

lemma pass_keys:
  "set ns \<subseteq> set (map fst c) \<Longrightarrow> map fst (fst (fold (moveNode g) ns (c, imp))) = map fst c"
proof (induction ns arbitrary: c imp)
  case Nil
  then show ?case by simp
next
  case (Cons n ns)
  obtain c' imp' where s: "moveNode g n (c, imp) = (c', imp')" by (cases "moveNode g n (c, imp)")
  have k: "map fst c' = map fst c" using moveNode_keys[of n c g imp] Cons.prems s by simp
  then have "set ns \<subseteq> set (map fst c')" using Cons.prems by simp
  from Cons.IH[OF this, of imp'] show ?case by (simp add: s k)
qed

lemma localMoves_keys:
  "set (nodes g) \<subseteq> set (map fst c) \<Longrightarrow> map fst (localMoves g c imp it) = map fst c"
proof (induction g c imp it rule: localMoves.induct)
  case (1 graph communities improved iterations)
  show ?case
  proof (cases "improved \<and> iterations < 100")
    case True
    obtain c' imp' where s: "fold (moveNode graph) (nodes graph) (communities, False) = (c', imp')"
      by (cases "fold (moveNode graph) (nodes graph) (communities, False)")
    have k: "map fst c' = map fst communities"
      using pass_keys[OF "1.prems", of graph False] s by simp
    have "map fst (localMoves graph c' imp' (iterations + 1)) = map fst c'"
      using "1.IH"[OF True s[symmetric] refl] "1.prems" k by simp
    then show ?thesis using True s k by (subst localMoves.simps) simp
  next
    case False
    then show ?thesis by (subst localMoves.simps) auto
  qed
qed

lemma unique_fold:
  "distinct acc \<Longrightarrow>
   distinct (fold (\<lambda>v s. set_add s v) vs acc) \<and>
   set (fold (\<lambda>v s. set_add s v) vs acc) = set acc \<union> set vs"
  by (induction vs arbitrary: acc) (auto simp: set_add_def)

lemma communityMap_fold:
  "distinct (map fst m @ us) \<Longrightarrow>
   fst (fold (\<lambda>oldId (m, newId). (map_set m oldId newId, newId + 1)) us (m, i))
   = m @ zip us [i ..< i + length us]"
proof (induction us arbitrary: m i)
  case Nil
  then show ?case by simp
next
  case (Cons u us)
  have "u \<notin> fst ` set m" using Cons.prems by auto
  then have app: "map_set m u i = m @ [(u, i)]"
    by (induction m) (auto simp: map_set_def)
  have "distinct (map fst (map_set m u i) @ us)" using Cons.prems by (simp add: app)
  from Cons.IH[OF this, of "i + 1"] show ?case
    by (simp add: app upt_conv_Cons del: upt_Suc)
qed

lemma result_fold:
  "distinct (map fst r @ map fst c) \<Longrightarrow>
   fold (\<lambda>(node, oldCommunity) result. map_set result node (f oldCommunity)) c r
   = r @ map (\<lambda>(node, oldCommunity). (node, f oldCommunity)) c"
proof (induction c arbitrary: r)
  case Nil
  then show ?case by simp
next
  case (Cons p c)
  obtain n old where p: "p = (n, old)" by (cases p)
  have "n \<notin> fst ` set r" using Cons.prems p by auto
  then have app: "map_set r n (f old) = r @ [(n, f old)]"
    by (induction r) (auto simp: map_set_def)
  have "distinct (map fst (map_set r n (f old)) @ map fst c)" using Cons.prems p by (simp add: app)
  from Cons.IH[OF this] show ?case by (simp add: p app)
qed

lemma map_of_zip_upt_image:
  assumes "distinct us"
  shows "map_of (zip us [0 ..< length us]) ` set us = Some ` {0 ..< length us}"
proof -
  have nth: "map_of (zip us [0 ..< length us]) (us ! k) = Some k" if "k < length us" for k
    using map_of_zip_nth[of us "[0 ..< length us]" k] assms that by simp
  show ?thesis
  proof (rule set_eqI, rule iffI)
    fix y assume "y \<in> map_of (zip us [0 ..< length us]) ` set us"
    then obtain k where "k < length us" "y = map_of (zip us [0 ..< length us]) (us ! k)"
      by (auto simp: in_set_conv_nth)
    then show "y \<in> Some ` {0 ..< length us}" using nth by simp
  next
    fix y assume "y \<in> Some ` {0 ..< length us}"
    then obtain k where k: "k < length us" "y = Some k" by auto
    then have "y = map_of (zip us [0 ..< length us]) (us ! k)" using nth by simp
    moreover have "us ! k \<in> set us" using k by simp
    ultimately show "y \<in> map_of (zip us [0 ..< length us]) ` set us" by blast
  qed
qed

lemma renumber_closed_form:
  assumes "distinct (map fst c)"
  shows "renumberCommunities c =
    map (\<lambda>(node, oldCommunity).
          (node, map_of (zip (fold (\<lambda>v s. set_add s v) (map snd c) [])
                             [0 ..< length (fold (\<lambda>v s. set_add s v) (map snd c) [])])
                        oldCommunity)) c"
proof -
  let ?u = "fold (\<lambda>v s. set_add s v) (map snd c) []"
  have du: "distinct ?u" using unique_fold[of "[]" "map snd c"] by simp
  have cm: "fst (fold (\<lambda>oldId (m, newId). (map_set m oldId newId, newId + 1)) ?u ([], 0 :: nat))
             = zip ?u [0 ..< length ?u]"
    using communityMap_fold[of "[]" ?u 0] du by simp
  show ?thesis
    unfolding renumberCommunities_def Let_def cm
    using result_fold[of "[]" c] assms by simp
qed

lemma renumber_keys: "distinct (map fst c) \<Longrightarrow> map fst (renumberCommunities c) = map fst c"
  by (simp add: renumber_closed_form case_prod_unfold comp_def)

lemma renumber_ids:
  assumes "distinct (map fst c)"
  shows "snd ` set (renumberCommunities c)
         = Some ` {0 ..< length (fold (\<lambda>v s. set_add s v) (map snd c) [])}"
proof -
  let ?u = "fold (\<lambda>v s. set_add s v) (map snd c) []"
  have du: "distinct ?u" and su: "set ?u = snd ` set c"
    using unique_fold[of "[]" "map snd c"] by simp_all
  have "snd ` set (renumberCommunities c) = map_of (zip ?u [0 ..< length ?u]) ` (snd ` set c)"
    by (force simp: renumber_closed_form[OF assms] image_iff)
  also have "\<dots> = Some ` {0 ..< length ?u}"
    using map_of_zip_upt_image[OF du] su by simp
  finally show ?thesis .
qed

text \<open>
  C9.  The assignment returned by \<open>detectCommunities\<close> has exactly the nodes of the
  graph as its keys, each once and in the graph's order, every value is a number (never
  \<open>undefined\<close>), and the ids in use are \<open>0, ..., k - 1\<close> for some \<open>k\<close>.  The
  hypothesis states that \<open>graph.nodes\<close> is a \<open>Set\<close>: it holds no node twice.
\<close>

theorem detectCommunities_coverage:
  assumes "distinct (nodes g)"
  shows "map fst (detectCommunities g) = nodes g \<and>
         (\<exists>k. snd ` set (detectCommunities g) = Some ` {0 ..< k})"
proof -
  consider (empty) "nodes g = []" | (single) n where "nodes g = [n]"
    | (many) "length (nodes g) \<noteq> 0" "length (nodes g) \<noteq> 1"
    by (cases "nodes g"; cases "tl (nodes g)") auto
  then show ?thesis
  proof cases
    case empty
    then show ?thesis by (simp add: detectCommunities_def)
  next
    case single
    have "snd ` set [(n, Some (0::nat))] = Some ` {0 ..< 1}" by simp
    then have "\<exists>k. snd ` set [(n, Some (0::nat))] = Some ` {0 ..< k}" by (rule exI)
    then show ?thesis using single by (simp add: detectCommunities_def)
  next
    case many
    let ?c = "localMoves g (initCommunities (nodes g)) True 0"
    have k0: "map fst (initCommunities (nodes g)) = nodes g"
      using initCommunities_keys[OF assms] .
    have k1: "map fst ?c = nodes g"
      using localMoves_keys[of g "initCommunities (nodes g)" True 0] k0 by simp
    then have d: "distinct (map fst ?c)" using assms by simp
    have r: "detectCommunities g = renumberCommunities ?c"
      using many by (simp add: detectCommunities_def)
    show ?thesis
      using renumber_keys[OF d] renumber_ids[OF d] k1 r by auto
  qed
qed

theorem detectCommunities_coverage_witness:
  "distinct (nodes twoTriangles) \<and>
   map fst (detectCommunities twoTriangles) = nodes twoTriangles \<and>
   (\<exists>k. snd ` set (detectCommunities twoTriangles) = Some ` {0 ..< k}) \<and>
   detectCommunities twoTriangles =
     [(''a'', Some 0), (''b'', Some 0), (''c'', Some 0),
      (''x'', Some 1), (''y'', Some 1), (''z'', Some 1)]"
proof -
  have d: "distinct (nodes twoTriangles)" by (simp add: twoTriangles_def)
  have ev: "detectCommunities twoTriangles =
     [(''a'', Some 0), (''b'', Some 0), (''c'', Some 0),
      (''x'', Some 1), (''y'', Some 1), (''z'', Some 1)]"
    by (simp add: detectCommunities_def twoTriangles_def initCommunities_def map_set_def
        localMoves.simps moveNode_def communityOf_def neighborWeights_def bestMove_def
        getNeighbors_def adjacency_def renumberCommunities_def set_add_def Let_def)
  from detectCommunities_coverage[OF d] d ev show ?thesis by blast
qed

section \<open>Properties of the ensemble merger\<close>

lemma defaultAggregator_fields:
  "nameMatchThreshold defaultAggregator = 0.85"
  "agreementBoost defaultAggregator = 1.2"
  "textrazorPenalty defaultAggregator = 0.9"
  "nuextractPenalty defaultAggregator = 0.85"
  by (simp_all add: defaultAggregator_def newEnsembleAggregator_def noOptions_def)

lemma lower_ML: "toLowerCase ''ML'' = ''ml''"
  by (simp add: toLowerCase_def lowerChar_def char_of_def bit_Suc_0_iff)

lemma lower_Machine_Learning: "toLowerCase ''Machine Learning'' = ''machine learning''"
  by (simp add: toLowerCase_def lowerChar_def char_of_def bit_Suc_0_iff)

lemma similarity_ML:
  "stringSimilarity ''ml'' ''machine learning'' = 1 / 8"
  "stringSimilarity ''machine learning'' ''ml'' = 1 / 8"
  by (simp_all add: stringSimilarity_def levenshteinDistance_def upt_rec)

text \<open>
  Whatever the other fields and whatever the order of the two sources, an entity named
  \<open>ML\<close> and one named \<open>Machine Learning\<close> do not match under any threshold above
  1/8: the names differ, the similarity is 1/8, \<open>ml\<close> is too short for the first
  containment test and does not contain \<open>machine learning\<close>, and \<open>machine learning\<close>
  does not contain \<open>ml\<close>.
\<close>

lemma findMatch_ML_never:
  assumes "name t = ''ML''" and "name c = ''Machine Learning''"
    and "1 / 8 < nameMatchThreshold this"
  shows "findMatch this t [c] = None \<and> findMatch this c [t] = None"
  using assms by (simp add: lower_ML lower_Machine_Learning similarity_ML)

text \<open>
  C2 fails on the code.  With the default options, merging the list holding \<open>ML\<close> with
  the list holding \<open>Machine Learning\<close> (both of type Concept) returns two entities,
  one per source, in either order of the sources; no entity has agreement level
  \<open>both\<close>.
\<close>

theorem merge_ML_not_matched:
  "etype (mkEntity ''Q1'' ''ML'' Concept (4/5) textrazor)
     = etype (mkEntity ''n1'' ''Machine Learning'' Concept (7/10) nuextract) \<and>
   stringSimilarity (toLowerCase ''ML'') (toLowerCase ''Machine Learning'') = 1 / 8 \<and>
   includes_str (toLowerCase ''Machine Learning'') (toLowerCase ''ML'') = False \<and>
   entities (merge defaultAggregator
      [mkEntity ''Q1'' ''ML'' Concept (4/5) textrazor]
      [mkEntity ''n1'' ''Machine Learning'' Concept (7/10) nuextract])
   = [createSingleSourceEntity defaultAggregator
        (mkEntity ''Q1'' ''ML'' Concept (4/5) textrazor) textrazor,
      createSingleSourceEntity defaultAggregator
        (mkEntity ''n1'' ''Machine Learning'' Concept (7/10) nuextract) nuextract] \<and>
   map agreementLevel (entities (merge defaultAggregator
      [mkEntity ''Q1'' ''ML'' Concept (4/5) textrazor]
      [mkEntity ''n1'' ''Machine Learning'' Concept (7/10) nuextract]))
   = [textrazor_only, nuextract_only] \<and>
   map agreementLevel (entities (merge defaultAggregator
      [mkEntity ''n1'' ''Machine Learning'' Concept (7/10) textrazor]
      [mkEntity ''Q1'' ''ML'' Concept (4/5) nuextract]))
   = [textrazor_only, nuextract_only]"
  by (simp add: merge_def matchStep_def unmatchedStep_def mkEntity_def defaultAggregator_fields
      createSingleSourceEntity_def Let_def
      lower_ML lower_Machine_Learning similarity_ML)

subsection \<open>Matching and consumption\<close>

lemma lower_apple: "toLowerCase ''Apple'' = ''apple''" "toLowerCase ''apple'' = ''apple''"
  by (simp_all add: toLowerCase_def lowerChar_def char_of_def bit_Suc_0_iff)

lemma findMatch_Cons:
  "findMatch this t (c # cs) = (if entityMatches this t c then Some c else findMatch this t cs)"
  by (auto simp: entityMatches_def Let_def)

lemma findMatch_first:
  "findMatch this t cs = Some c \<Longrightarrow>
   \<exists>pre post. cs = pre @ c # post \<and> list_all (\<lambda>c'. \<not> entityMatches this t c') pre
      \<and> entityMatches this t c"
proof (induction cs)
  case Nil
  then show ?case by simp
next
  case (Cons a cs)
  show ?case
  proof (cases "entityMatches this t a")
    case True
    then have "a = c" using Cons.prems by (simp add: findMatch_Cons del: findMatch.simps)
    then have "a # cs = [] @ c # cs \<and> list_all (\<lambda>c'. \<not> entityMatches this t c') []
      \<and> entityMatches this t c" using True by simp
    then show ?thesis by blast
  next
    case False
    then have "findMatch this t cs = Some c"
      using Cons.prems by (simp add: findMatch_Cons del: findMatch.simps)
    from Cons.IH[OF this] obtain pre post where
      "cs = pre @ c # post" "list_all (\<lambda>c'. \<not> entityMatches this t c') pre" "entityMatches this t c"
      by blast
    then have "a # cs = (a # pre) @ c # post \<and> list_all (\<lambda>c'. \<not> entityMatches this t c') (a # pre)
      \<and> entityMatches this t c" using False by simp
    then show ?thesis by blast
  qed
qed

lemma matchStep_once:
  "matchStep this nus t (r, m) =
     (r @ [matchResult this nus t],
      fold (\<lambda>i s. set_add s i) (matchedIds this [t] nus) m)"
  by (cases "findMatch this t nus")
     (simp_all add: matchStep_def matchResult_def matchedIds_def map_filter_simps)

lemma matchedIds_Cons:
  "matchedIds this (t # trs) nus = matchedIds this [t] nus @ matchedIds this trs nus"
  by (cases "findMatch this t nus") (simp_all add: matchedIds_def map_filter_simps)

lemma matchStep_fold:
  "fold (matchStep this nus) trs (r, m) =
     (r @ map (matchResult this nus) trs,
      fold (\<lambda>i s. set_add s i) (matchedIds this trs nus) m)"
proof (induction trs arbitrary: r m)
  case Nil
  then show ?case by (simp add: matchedIds_def map_filter_simps)
next
  case (Cons t trs)
  show ?case
    by (simp add: matchStep_once Cons.IH matchedIds_Cons[of this t trs])
qed

lemma set_add_fold_set: "set (fold (\<lambda>i s. set_add s i) xs m) = set m \<union> set xs"
  by (induction xs arbitrary: m) (auto simp: set_add_def)

lemma unmatchedStep_fold:
  "fold (unmatchedStep this matched) nus r =
     r @ map (\<lambda>nu. createSingleSourceEntity this nu nuextract)
           (filter (\<lambda>nu. eid nu \<notin> set matched) nus)"
  by (induction nus arbitrary: r) (simp_all add: unmatchedStep_def)

text \<open>
  C5, as stated, fails.  Two first-list entities named \<open>Apple\<close> and \<open>apple\<close> are both
  matched with the only second-list entity: the result holds two entities of agreement
  level \<open>both\<close> although the second list has one entity.
\<close>

theorem merge_matches_consumed_entity_again:
  "findMatch defaultAggregator apple1 [appleNu] = Some appleNu \<and>
   findMatch defaultAggregator apple2 [appleNu] = Some appleNu \<and>
   map agreementLevel (entities (merge defaultAggregator [apple1, apple2] [appleNu]))
     = [both, both] \<and>
   bothAgreed (stats (merge defaultAggregator [apple1, apple2] [appleNu])) = 2 \<and>
   nuextractCount (stats (merge defaultAggregator [apple1, apple2] [appleNu])) = 1"
  by (simp add: merge_def matchStep_def unmatchedStep_def mkEntity_def apple1_def apple2_def
      appleNu_def createEnsembleEntity_def set_add_def Let_def lower_apple)

lemma findMatch_find: "findMatch this t cs = find (entityMatches this t) cs"
  by (induction cs) (simp_all add: findMatch_Cons del: findMatch.simps(2))

text \<open>
  C5, amended.  \<open>findMatch\<close> returns the first candidate, in list order, that passes
  a matching rule, and none exactly when no candidate passes.  Every first-list entity
  is matched in this way on its own against the whole second list, whether or not an
  earlier first-list entity has matched that candidate already; it yields one result,
  of level \<open>both\<close> when a candidate was found and first-source-only otherwise.  A
  second-list entity whose id was matched is never emitted as a second-source-only
  result; every other second-list entity is emitted once as such, after the first-list
  results.
\<close>

theorem merge_first_match_per_entity:
  "(\<forall>t cs. findMatch this t cs = find (entityMatches this t) cs)
   \<and> entities (merge this trs nus) =
       map (\<lambda>tr. case find (entityMatches this tr) nus of
                    Some nu \<Rightarrow> createEnsembleEntity this tr nu
                  | None \<Rightarrow> createSingleSourceEntity this tr textrazor)
           trs
       @ map (\<lambda>nu. createSingleSourceEntity this nu nuextract)
           (filter (\<lambda>nu. eid nu \<notin> set (map eid
                       (List.map_filter (\<lambda>tr. find (entityMatches this tr) nus) trs)))
              nus)
   \<and> (\<forall>tr nu. agreementLevel (createEnsembleEntity this tr nu) = both
          \<and> agreementLevel (createSingleSourceEntity this tr textrazor) = textrazor_only
          \<and> agreementLevel (createSingleSourceEntity this nu nuextract) = nuextract_only)"
proof (intro conjI allI)
  fix t cs
  show "findMatch this t cs = find (entityMatches this t) cs" by (rule findMatch_find)
next
  have "entities (merge this trs nus) =
     map (matchResult this nus) trs
     @ map (\<lambda>nu. createSingleSourceEntity this nu nuextract)
         (filter (\<lambda>nu. eid nu \<notin> set (matchedIds this trs nus)) nus)"
    by (simp add: merge_def matchStep_fold unmatchedStep_fold set_add_fold_set)
  then show "entities (merge this trs nus) =
       map (\<lambda>tr. case find (entityMatches this tr) nus of
                    Some nu \<Rightarrow> createEnsembleEntity this tr nu
                  | None \<Rightarrow> createSingleSourceEntity this tr textrazor)
           trs
       @ map (\<lambda>nu. createSingleSourceEntity this nu nuextract)
           (filter (\<lambda>nu. eid nu \<notin> set (map eid
                       (List.map_filter (\<lambda>tr. find (entityMatches this tr) nus) trs)))
              nus)"
    by (simp add: matchResult_def matchedIds_def findMatch_find option.case_eq_if
        del: findMatch.simps cong: map_cong)
next
  fix tr nu
  show "agreementLevel (createEnsembleEntity this tr nu) = both"
    by (simp add: createEnsembleEntity_def Let_def)
  show "agreementLevel (createSingleSourceEntity this tr textrazor) = textrazor_only"
    by (simp add: createSingleSourceEntity_def Let_def)
  show "agreementLevel (createSingleSourceEntity this nu nuextract) = nuextract_only"
    by (simp add: createSingleSourceEntity_def Let_def)
qed

lemma lower_pear: "toLowerCase ''Pear'' = ''pear''"
  by (simp add: toLowerCase_def lowerChar_def char_of_def bit_Suc_0_iff)

text \<open>
  The witness: \<open>Pear\<close> stands before \<open>Apple\<close> in the second list and passes no rule
  (similarity 1/5), so both first-list entities take the second candidate and \<open>Pear\<close>
  is the only second-source-only result.
\<close>

theorem merge_first_match_per_entity_witness:
  "find (entityMatches defaultAggregator apple1) [pearNu, appleNu] = Some appleNu \<and>
   find (entityMatches defaultAggregator apple2) [pearNu, appleNu] = Some appleNu \<and>
   findMatch defaultAggregator apple1 [pearNu, appleNu] = Some appleNu \<and>
   entities (merge defaultAggregator [apple1, apple2] [pearNu, appleNu]) =
     [createEnsembleEntity defaultAggregator apple1 appleNu,
      createEnsembleEntity defaultAggregator apple2 appleNu,
      createSingleSourceEntity defaultAggregator pearNu nuextract] \<and>
   map agreementLevel (entities (merge defaultAggregator [apple1, apple2] [pearNu, appleNu]))
     = [both, both, nuextract_only]"
proof -
  have sim: "stringSimilarity ''apple'' ''pear'' = 1 / 5"
    by (simp add: stringSimilarity_def levenshteinDistance_def upt_rec)
  have names: "name apple1 = ''Apple''" "name apple2 = ''apple''" "name appleNu = ''Apple''"
    "name pearNu = ''Pear''"
    by (simp_all add: apple1_def apple2_def appleNu_def pearNu_def mkEntity_def)
  have no: "\<not> entityMatches defaultAggregator apple1 pearNu"
    "\<not> entityMatches defaultAggregator apple2 pearNu"
    by (simp_all add: entityMatches_def names lower_apple lower_pear sim
        defaultAggregator_fields)
  have yes: "entityMatches defaultAggregator apple1 appleNu"
    "entityMatches defaultAggregator apple2 appleNu"
    by (simp_all add: entityMatches_def names lower_apple)
  have f: "find (entityMatches defaultAggregator apple1) [pearNu, appleNu] = Some appleNu"
    "find (entityMatches defaultAggregator apple2) [pearNu, appleNu] = Some appleNu"
    using no yes by simp_all
  have ids: "eid appleNu = ''n1''" "eid pearNu = ''n0''"
    by (simp_all add: appleNu_def pearNu_def mkEntity_def)
  from merge_first_match_per_entity[of defaultAggregator "[apple1, apple2]" "[pearNu, appleNu]"]
  show ?thesis
    using f ids by (simp add: map_filter_simps del: findMatch.simps)
qed

section \<open>Properties of the statistical reweighter\<close>

lemma applyStep_fold:
  assumes "flag (filterNegative options)" and "flag (combineWithFrequency options)"
  shows "fold (applyStep ar this counts options) es rs =
     rs @ map (combinedResult ar this counts (flag (useNPMI options)))
            (filter (\<lambda>e. \<not> jsLess ar (edgePMI ar this counts (flag (useNPMI options)) e) (jsNat ar 0)) es)"
  using assms
  by (induction es arbitrary: rs) (simp_all add: applyStep_def combinedResult_def Let_def)

text \<open>
  C7.  With \<open>filterNegative\<close> and \<open>combineWithFrequency\<close> enabled (given as \<open>true\<close> or
  left at their default), for every edge list, every counts structure, either choice of
  PMI or NPMI and every arithmetic of the numbers, the output of \<open>applyToEdges\<close> is, in
  order, one edge for each input edge whose computed value is not less than 0, with
  the weight \<open>weight * (1 + Math.max(0, value))\<close> computed from its input weight; so no
  output edge has a value that is less than 0.
\<close>

theorem applyToEdges_combined:
  assumes "flag (filterNegative options)" and "flag (combineWithFrequency options)"
  shows "applyToEdges ar this es counts options =
           map (combinedResult ar this counts (flag (useNPMI options)))
             (filter (\<lambda>e. \<not> jsLess ar (edgePMI ar this counts (flag (useNPMI options)) e)
                                 (jsNat ar 0)) es)
         \<and> list_all (\<lambda>r. \<not> jsLess ar (pmiValue r) (jsNat ar 0))
              (applyToEdges ar this es counts options)"
  using assms by (simp add: applyToEdges_def applyStep_fold list_all_iff combinedResult_def)

lemma log2_half: "log 2 (1 / 2) = - 1"
  using log_inverse[of 2 2] by (simp add: inverse_eq_divide)

lemma log2_eighth: "log 2 (1 / 8) = - 3"
proof -
  have "log 2 8 = 3" using log_nat_power[of 2 2 3] by simp
  then show ?thesis using log_inverse[of 2 8] by (simp add: inverse_eq_divide)
qed

lemma pmiExample_keys:
  "pairKey ''b'' ''a'' = ''a|b''" "pairKey ''c'' ''d'' = ''c|d''" "pairKey ''a'' ''d'' = ''a|d''"
  by (simp_all add: pairKey_def sortPair_def)

lemma arith_fields:
  "jsNat extendedArith n = Finite (real n)" "jsAdd extendedArith = xAdd" "jsMul extendedArith = xMul"
  "jsDiv extendedArith = xDiv" "jsNeg extendedArith = xNeg" "jsLog2 extendedArith = xLog2"
  "jsLess extendedArith = xLess" "jsEq extendedArith = xEq" "jsMax extendedArith = xMax"
  "jsMin extendedArith = xMin"
  by (simp_all add: extendedArith_def)

lemma pmiExample_values:
  "pmi extendedArith pmiExampleCalculator ''b'' ''a'' pmiExampleCounts = Finite (- 1)"
  "pmi extendedArith pmiExampleCalculator ''c'' ''d'' pmiExampleCounts = Finite 1"
  "pmi extendedArith pmiExampleCalculator ''a'' ''d'' pmiExampleCounts = NegInfinity"
  by (simp_all add: pmi_def pmiExampleCounts_def pmiExampleCalculator_def count_or_zero_def
      pmiExample_keys arith_fields log2_half)

lemma npmiExample_values:
  "npmi extendedArith pmiExampleCalculator ''b'' ''a'' pmiExampleCounts = Finite (- 1 / 3)"
  "npmi extendedArith pmiExampleCalculator ''c'' ''d'' pmiExampleCounts = Finite 1"
  "npmi extendedArith pmiExampleCalculator ''a'' ''d'' pmiExampleCounts = NaN"
  by (simp_all add: npmi_def pmiExample_values arith_fields xEq_def Let_def)
     (simp_all add: xMax_def xMin_def pmiExampleCounts_def pmiExampleCalculator_def
       count_or_zero_def pmiExample_keys arith_fields log2_half log2_eighth signedInfinity_def)

text \<open>
  The witness, in the arithmetic with the special values.  The pair \<open>a, b\<close> has NPMI
  \<open>-1/3\<close> and is dropped; \<open>c, d\<close> has NPMI 1 and its weight 5 becomes 10; for the
  unseen pair \<open>a, d\<close> PMI is \<open>-Infinity\<close> and NPMI is \<open>NaN\<close>, which is not less than
  0: in NPMI mode the edge is kept with the weight \<open>NaN\<close>, in PMI mode it is dropped.
\<close>

theorem applyToEdges_combined_witness:
  "flag (filterNegative \<lparr>useNPMI = None, combineWithFrequency = None,
                          filterNegative = Some True\<rparr>) \<and>
   flag (combineWithFrequency \<lparr>useNPMI = None, combineWithFrequency = None,
                                filterNegative = Some True\<rparr>) \<and>
   applyToEdges extendedArith pmiExampleCalculator pmiExampleEdges pmiExampleCounts
       \<lparr>useNPMI = None, combineWithFrequency = None, filterNegative = Some True\<rparr>
     = [\<lparr>source = ''c'', target = ''d'', weight = Finite 10, pmiValue = Finite 1,
          npmiValue = Some (Finite 1), cooccurrenceCount = Finite 4\<rparr>,
        \<lparr>source = ''a'', target = ''d'', weight = NaN, pmiValue = NaN,
          npmiValue = Some NaN, cooccurrenceCount = Finite 0\<rparr>] \<and>
   applyToEdges extendedArith pmiExampleCalculator pmiExampleEdges pmiExampleCounts
       \<lparr>useNPMI = Some False, combineWithFrequency = None, filterNegative = Some True\<rparr>
     = [\<lparr>source = ''c'', target = ''d'', weight = Finite 10, pmiValue = Finite 1,
          npmiValue = None, cooccurrenceCount = Finite 4\<rparr>]"
proof -
  let ?o = "\<lparr>useNPMI = None, combineWithFrequency = None, filterNegative = Some True\<rparr>"
  let ?p = "\<lparr>useNPMI = Some False, combineWithFrequency = None, filterNegative = Some True\<rparr>"
  have f: "flag (filterNegative ?o)" and c: "flag (combineWithFrequency ?o)"
    and f': "flag (filterNegative ?p)" and c': "flag (combineWithFrequency ?p)"
    by (simp_all add: flag_def)
  have cnt: "count_or_zero extendedArith (pairCounts pmiExampleCounts) ''c|d'' = Finite 4"
    "count_or_zero extendedArith (pairCounts pmiExampleCounts) ''a|d'' = Finite 0"
    by (simp_all add: pmiExampleCounts_def count_or_zero_def arith_fields)
  from applyToEdges_combined[OF f c, of extendedArith pmiExampleCalculator
      pmiExampleEdges pmiExampleCounts]
    applyToEdges_combined[OF f' c', of extendedArith pmiExampleCalculator
      pmiExampleEdges pmiExampleCounts]
  show ?thesis
    using f c
    by (simp add: pmiExampleEdges_def combinedResult_def edgePMI_def flag_def
        pmiExample_values npmiExample_values pmiExample_keys cnt arith_fields
        xMax_def signedInfinity_def)
qed

section \<open>Properties of the gap detector\<close>

lemma bridgeStep_fold:
  "fold (bridgeStep g comm fromC toC toE) fromE cands =
     cands @ directionCandidates g comm fromC toC fromE toE"
  by (induction fromE arbitrary: cands)
     (simp_all add: bridgeStep_def directionCandidates_def Let_def)

lemma findBridgeCandidates_closed:
  "findBridgeCandidates g c1 c2 comm cn =
     (let c1Entities = entitiesOf cn c1;
          c2Entities = entitiesOf cn c2
      in take 5 (sort_key (\<lambda>c. - expectedImpact c)
           (directionCandidates g comm c1 c2 c1Entities c2Entities
            @ directionCandidates g comm c2 c1 c2Entities c1Entities)))"
  by (simp add: findBridgeCandidates_def bridgeStep_fold Let_def)

lemma gapStep_fold_candidates:
  "list_all (mergedTopFive g comm) gaps \<Longrightarrow>
   list_all (mergedTopFive g comm) (fold (gapStep g comm minD cn) ps gaps)"
  by (induction ps arbitrary: gaps)
     (auto simp: gapStep_def Let_def mergedTopFive_def findBridgeCandidates_closed)

lemma groupStep_lookup:
  "entitiesOf (groupStep (n, c') r) c =
     (if c' = c then entitiesOf r c @ [n] else entitiesOf r c)"
  by (simp add: groupStep_def entitiesOf_def Let_def map_of_map_set map_has_def)

lemma getCommunitiesMap_fold_lookup:
  "entitiesOf (fold groupStep comm r) c = entitiesOf r c @ clusterMembers comm c"
proof (induction comm arbitrary: r)
  case Nil
  then show ?case by (simp add: clusterMembers_def)
next
  case (Cons p comm)
  obtain n c' where p: "p = (n, c')" by (cases p)
  have "clusterMembers (p # comm) c
        = (if c' = c then n # clusterMembers comm c else clusterMembers comm c)"
    by (simp add: p clusterMembers_def)
  then show ?case
    by (simp add: p Cons.IH groupStep_lookup)
qed

lemma getCommunitiesMap_lookup:
  "entitiesOf (getCommunitiesMap comm) c = clusterMembers comm c"
proof -
  have "entitiesOf ([] :: (nat, string list) jsmap) c = []" by (simp add: entitiesOf_def)
  then show ?thesis
    using getCommunitiesMap_fold_lookup[of comm "[]" c] by (simp add: getCommunitiesMap_def)
qed

lemma gapStep_fold_members:
  "list_all (gapMembers comm) gaps \<Longrightarrow>
   list_all (gapMembers comm)
     (fold (gapStep g comm minD (getCommunitiesMap comm)) ps gaps)"
  by (induction ps arbitrary: gaps)
     (auto simp: gapStep_def Let_def gapMembers_def getCommunitiesMap_lookup)

lemma set_slice0: "set (slice0 xs n) \<subseteq> set xs"
  by (auto simp: slice0_def dest: in_set_takeD)

text \<open>
  C4, as stated, fails.  For two separate triangles \<open>a, b, c\<close> (community 0) and
  \<open>x, y, z\<close> (community 1) the one reported gap has five bridge candidates: \<open>z\<close> is a
  node of community 1 without a neighbour in community 0 and is not among them,
  although its direction has only three candidates.  Taking the top five of each
  direction and merging gives all six nodes.
\<close>

theorem bridgeCandidates_five_in_total:
  "map (\<lambda>gap. map entityId (bridgeCandidates gap))
       (detectStructuralGaps twoTriangles twoTriangleCommunities 0.3 5)
     = [[''a'', ''b'', ''c'', ''x'', ''y'']] \<and>
   map entityId (topFivePerDirection twoTriangles twoTriangleCommunities 0 1
                   [''a'', ''b'', ''c''] [''x'', ''y'', ''z''])
     = [''a'', ''b'', ''c'', ''x'', ''y'', ''z'']"
  by (simp add: detectStructuralGaps_def getCommunitiesMap_def twoTriangleCommunities_def
      twoTriangles_def gapStep_def interClusterDistance_def findBridgeCandidates_def
      groupStep_def entitiesOf_def bridgeStep_def topFivePerDirection_def directionCandidates_def getNeighbors_def
      getDegree_def adjacency_def map_set_def map_has_def slice0_def Let_def)

text \<open>
  C4, amended.  For every graph, community assignment and reported gap between
  clusters A and B (whose entity lists are the members of A and of B in the order of
  the assignment), the bridge candidates are the first five entries of one merged
  list: the nodes of A with zero direct neighbours in B, followed by the nodes of B
  with zero direct neighbours in A, each with expected impact = degree times (size of
  the other cluster) / max(size of the other cluster, 1), sorted stably by descending
  impact.  So a gap has at most five candidates in total, not five per direction.
\<close>

theorem bridgeCandidates_merged_top_five:
  "list_all (mergedTopFive g comm) (detectStructuralGaps g comm minD maxG)
   \<and> list_all (gapMembers comm) (detectStructuralGaps g comm minD maxG)
   \<and> list_all (\<lambda>gap. length (bridgeCandidates gap) \<le> 5)
        (detectStructuralGaps g comm minD maxG)"
proof -
  let ?gaps = "fold (gapStep g comm minD (getCommunitiesMap comm))
                 (index_pairs (map fst (getCommunitiesMap comm))) []"
  have "list_all (mergedTopFive g comm) ?gaps"
    by (rule gapStep_fold_candidates) simp
  then have all: "list_all (mergedTopFive g comm) (detectStructuralGaps g comm minD maxG)"
    using set_slice0[of "sort_key (\<lambda>g. - gapDistance g) ?gaps" maxG]
    by (auto simp: detectStructuralGaps_def Let_def list_all_iff)
  then have five: "list_all (\<lambda>gap. length (bridgeCandidates gap) \<le> 5)
        (detectStructuralGaps g comm minD maxG)"
    by (auto simp: list_all_iff mergedTopFive_def)
  have "list_all (gapMembers comm) ?gaps"
    by (rule gapStep_fold_members) simp
  then have "list_all (gapMembers comm) (detectStructuralGaps g comm minD maxG)"
    using set_slice0[of "sort_key (\<lambda>g. - gapDistance g) ?gaps" maxG]
    by (auto simp: detectStructuralGaps_def Let_def list_all_iff)
  with all five show ?thesis by simp
qed

theorem bridgeCandidates_merged_top_five_witness:
  "list_all (mergedTopFive twoTriangles twoTriangleCommunities)
     (detectStructuralGaps twoTriangles twoTriangleCommunities 0.3 5) \<and>
   map (\<lambda>gap. (cluster1 gap, cluster2 gap, gapDistance gap, length (bridgeCandidates gap)))
     (detectStructuralGaps twoTriangles twoTriangleCommunities 0.3 5) = [(0, 1, 1, 5)]"
proof -
  have "map (\<lambda>gap. (cluster1 gap, cluster2 gap, gapDistance gap, length (bridgeCandidates gap)))
     (detectStructuralGaps twoTriangles twoTriangleCommunities 0.3 5) = [(0, 1, 1, 5)]"
    by (simp add: detectStructuralGaps_def getCommunitiesMap_def twoTriangleCommunities_def
      twoTriangles_def gapStep_def interClusterDistance_def findBridgeCandidates_def
      groupStep_def entitiesOf_def bridgeStep_def getNeighbors_def
      getDegree_def adjacency_def map_set_def map_has_def slice0_def Let_def)
  with bridgeCandidates_merged_top_five[of twoTriangles twoTriangleCommunities "0.3" 5]
  show ?thesis by simp
qed

section \<open>Properties of the co-occurrence builders\<close>

subsection \<open>The builders count pairs of different ids\<close>

lemma set_map_set: "set (map_set m k v) \<subseteq> insert (k, v) (set m)"
proof (induction m)
  case Nil
  then show ?case by (simp add: map_set_def)
next
  case (Cons p m)
  then show ?case by (auto simp: map_set_def)
qed

lemma pairCountsOf_lookup:
  "pairCountsOf ids cooc \<Longrightarrow> 0 \<le> num_or (map_of cooc key) 0"
proof (cases "map_of cooc key")
  case None
  then show ?thesis by simp
next
  case (Some w)
  assume "pairCountsOf ids cooc"
  moreover have "(key, w) \<in> set cooc" using Some by (rule map_of_SomeD)
  ultimately have "1 \<le> w" by (auto simp: pairCountsOf_def list_all_iff)
  then show ?thesis using Some by simp
qed

lemma countPair_pairCountsOf:
  assumes "pairCountsOf ids cooc" and "a \<in> ids" and "b \<in> ids" and "a \<noteq> b"
  shows "pairCountsOf ids (countPair cooc a b)"
proof -
  let ?v = "num_or (map_of cooc (edgeKey a b)) 0 + 1"
  have v: "1 \<le> ?v" using pairCountsOf_lookup[OF assms(1), of "edgeKey a b"] by simp
  have "set (countPair cooc a b) \<subseteq> insert (edgeKey a b, ?v) (set cooc)"
    by (simp add: countPair_def Let_def set_map_set)
  then show ?thesis
    using assms v unfolding pairCountsOf_def list_all_iff by blast
qed

lemma innerPositions_pairCountsOf:
  "pairCountsOf ids cooc \<Longrightarrow> mentionEntityId mi \<in> ids \<Longrightarrow>
   mentionEntityId ` set later \<subseteq> ids \<Longrightarrow>
   pairCountsOf ids (innerPositions wc mi later cooc)"
  by (induction later arbitrary: cooc) (auto simp: Let_def countPair_pairCountsOf)

lemma outerPositions_pairCountsOf:
  "pairCountsOf ids cooc \<Longrightarrow> mentionEntityId ` set ms \<subseteq> ids \<Longrightarrow>
   pairCountsOf ids (outerPositions wc ms cooc)"
  by (induction ms arbitrary: cooc) (auto simp: innerPositions_pairCountsOf)

lemma innerWords_pairCountsOf:
  "pairCountsOf ids cooc \<Longrightarrow> mentionEntityId mi \<in> ids \<Longrightarrow>
   mentionEntityId ` fst ` set later \<subseteq> ids \<Longrightarrow>
   pairCountsOf ids (innerWords ws mi w1 later cooc)"
  by (induction ws mi w1 later cooc rule: innerWords.induct)
     (auto simp: Let_def countPair_pairCountsOf)

lemma outerWords_pairCountsOf:
  "pairCountsOf ids cooc \<Longrightarrow> mentionEntityId ` fst ` set ms \<subseteq> ids \<Longrightarrow>
   pairCountsOf ids (outerWords ws ms cooc)"
  by (induction ws ms cooc rule: outerWords.induct)
     (auto simp: innerWords_pairCountsOf)

lemma calculateCooccurrences_pairCountsOf:
  "pairCountsOf (mentionEntityId ` set ms) (calculateCooccurrences ms txt wsize byPos)"
proof -
  have e: "pairCountsOf (mentionEntityId ` set ms) []" by (simp add: pairCountsOf_def)
  show ?thesis
    by (auto simp: calculateCooccurrences_def Let_def image_image
         intro!: outerPositions_pairCountsOf outerWords_pairCountsOf e)
qed

lemma index_pairs_set: "(x, y) \<in> set (index_pairs xs) \<Longrightarrow> x \<in> set xs \<and> y \<in> set xs"
  by (induction xs) auto

lemma sentencePairs_pairCountsOf:
  "pairCountsOf ids cooc \<Longrightarrow> set ps \<subseteq> {(x, y). eid x \<in> ids \<and> eid y \<in> ids} \<Longrightarrow>
   pairCountsOf ids (fold countSentencePair ps cooc)"
proof (induction ps arbitrary: cooc)
  case Nil
  then show ?case by simp
next
  case (Cons p ps)
  obtain x y where p: "p = (x, y)" by (cases p)
  have in_ids: "eid x \<in> ids" "eid y \<in> ids" using Cons.prems(2) p by simp_all
  have step: "pairCountsOf ids (countSentencePair p cooc)"
    using Cons.prems(1) in_ids p by (simp add: countSentencePair_def countPair_pairCountsOf)
  have "set ps \<subseteq> {(x, y). eid x \<in> ids \<and> eid y \<in> ids}" using Cons.prems(2) by simp
  from Cons.IH[OF step this] show ?case by simp
qed

lemma sentenceLoop_pairCountsOf:
  "pairCountsOf (eid ` set ents) cooc \<Longrightarrow>
   pairCountsOf (eid ` set ents) (sentenceLoop ents sentences off cooc)"
proof (induction sentences arbitrary: off cooc)
  case Nil
  then show ?case by simp
next
  case (Cons s sentences)
  have "set (index_pairs (entitiesInSentence ents off (off + real (length s))))
        \<subseteq> {(x, y). eid x \<in> eid ` set ents \<and> eid y \<in> eid ` set ents}"
    by (auto dest!: index_pairs_set simp: entitiesInSentence_def)
  with Cons.prems have "pairCountsOf (eid ` set ents)
     (fold countSentencePair
        (index_pairs (entitiesInSentence ents off (off + real (length s)))) cooc)"
    by (rule sentencePairs_pairCountsOf)
  then show ?case using Cons.IH by (simp add: Let_def)
qed

lemma pairCountsOf_nonneg: "pairCountsOf ids cooc \<Longrightarrow> list_all (\<lambda>p. 0 \<le> snd p) cooc"
  by (auto simp: pairCountsOf_def list_all_iff)

lemma mention_ids: "mentionEntityId ` set (sort_key mentionStart (flattenMentions ents)) \<subseteq> eid ` set ents"
  by (auto simp: flattenMentions_def)

lemma pairCountsOf_mono: "pairCountsOf ids cooc \<Longrightarrow> ids \<subseteq> ids' \<Longrightarrow> pairCountsOf ids' cooc"
  unfolding pairCountsOf_def list_all_iff by blast

lemma builder_counts:
  "pairCountsOf (eid ` set ents)
     (calculateCooccurrences (sort_key mentionStart (flattenMentions ents)) txt wsize byPos)"
  "pairCountsOf (eid ` set ents) (sentenceLoop ents sentences 0 [])"
proof -
  show "pairCountsOf (eid ` set ents)
     (calculateCooccurrences (sort_key mentionStart (flattenMentions ents)) txt wsize byPos)"
    using calculateCooccurrences_pairCountsOf mention_ids by (rule pairCountsOf_mono)
  show "pairCountsOf (eid ` set ents) (sentenceLoop ents sentences 0 [])"
    by (rule sentenceLoop_pairCountsOf) (simp add: pairCountsOf_def)
qed

text \<open>
  The key of a pair always splits into at least two parts, so the destructuring
  \<open>[source, target]\<close> reads two strings.
\<close>

lemma splitOn_nonempty: "splitOn sep acc s \<noteq> []"
  by (induction sep acc s rule: splitOn.induct) auto

lemma splitOn_two_parts:
  "\<exists>s t others. splitOn ''|||'' acc (a @ ''|||'' @ b) = s # t # others"
proof (induction a arbitrary: acc)
  case Nil
  obtain t others where "splitOn ''|||'' [] b = t # others"
    using splitOn_nonempty[of "''|||''" "[]" b] by (cases "splitOn ''|||'' [] b") auto
  then show ?case by simp
next
  case (Cons c a)
  define rest where "rest = a @ ''|||'' @ b"
  have ih: "\<exists>s t others. splitOn ''|||'' (c # acc) rest = s # t # others"
    unfolding rest_def by (rule Cons.IH)
  have "\<exists>s t others. splitOn ''|||'' acc (c # rest) = s # t # others"
  proof (cases "startsWith (c # rest) ''|||''")
    case True
    obtain t others where
      "splitOn ''|||'' [] (drop (length ''|||'' - 1) rest) = t # others"
      using splitOn_nonempty[of "''|||''" "[]" "drop (length ''|||'' - 1) rest"]
      by (cases "splitOn ''|||'' [] (drop (length ''|||'' - 1) rest)") auto
    then show ?thesis using True by simp
  next
    case False
    then show ?thesis using ih by auto
  qed
  then show ?case by (simp add: rest_def)
qed

lemma splitOn_edgeKey:
  "\<exists>s t others. splitOn ''|||'' [] (edgeKey a b) = s # t # others"
  using splitOn_two_parts[of "[]" a b] splitOn_two_parts[of "[]" b a]
  by (auto simp: edgeKey_def sortPair_def)

subsection \<open>Symmetry and non-negative weights\<close>

lemma addCountedEdge_invariant:
  assumes "symmetricWeights g \<and> nonNegativeWeights g" and "0 \<le> snd p"
  shows "symmetricWeights (addCountedEdge minW p g) \<and> nonNegativeWeights (addCountedEdge minW p g)"
proof (cases p)
  case (Pair key v)
  then have v: "0 \<le> v" using assms(2) by simp
  show ?thesis
    using assms(1) v
    by (simp add: Pair addCountedEdge_def addEdge_symmetric addEdge_nonNegative
        split: list.splits)
qed

lemma fold_addCountedEdge_invariant:
  "symmetricWeights g \<and> nonNegativeWeights g \<Longrightarrow> list_all (\<lambda>p. 0 \<le> snd p) cooc \<Longrightarrow>
   symmetricWeights (fold (addCountedEdge minW) cooc g)
   \<and> nonNegativeWeights (fold (addCountedEdge minW) cooc g)"
proof (induction cooc arbitrary: g)
  case Nil
  then show ?case by simp
next
  case (Cons p cooc)
  have "symmetricWeights (addCountedEdge minW p g) \<and> nonNegativeWeights (addCountedEdge minW p g)"
    using Cons.prems by (intro addCountedEdge_invariant) simp_all
  then show ?case using Cons by simp
qed

lemma inner_max_ge: "m \<le> fold (\<lambda>(t, w) m'. max m' (w::real)) nb m"
proof (induction nb arbitrary: m)
  case Nil
  then show ?case by simp
next
  case (Cons p nb)
  obtain t w where p: "p = (t, w)" by (cases p)
  have "m \<le> max m w" by simp
  also have "\<dots> \<le> fold (\<lambda>(t, w) m'. max m' w) nb (max m w)" by (rule Cons.IH)
  finally show ?case by (simp add: p)
qed

lemma outer_max_ge:
  "m \<le> fold (\<lambda>(n, neighbors) m. fold (\<lambda>(t, w) m'. max m' (w::real)) neighbors m) es m"
proof (induction es arbitrary: m)
  case Nil
  then show ?case by simp
next
  case (Cons p es)
  obtain n nb where p: "p = (n, nb)" by (cases p)
  have "m \<le> fold (\<lambda>(t, w) m'. max m' w) nb m" by (rule inner_max_ge)
  also have "\<dots> \<le> fold (\<lambda>(n, neighbors) m. fold (\<lambda>(t, w) m'. max m' w) neighbors m) es
                     (fold (\<lambda>(t, w) m'. max m' w) nb m)"
    by (rule Cons.IH)
  finally show ?case by (simp add: p)
qed

lemma edgeAt_scaled:
  "edgeAt (g\<lparr>edges := map (\<lambda>(n, neighbors). (n, map (\<lambda>(t, w). (t, w / m)) neighbors)) (edges g)\<rparr>) a b
   = map_option (\<lambda>w. w / m) (edgeAt g a b)"
proof -
  have inner: "map_of (map (\<lambda>(t, w). (t, w / m)) nb) b = map_option (\<lambda>w. w / m) (map_of nb b)"
    for nb :: "(string \<times> real) list"
    by (induction nb) auto
  have outer: "map_of (map (\<lambda>(n, neighbors). (n, map (\<lambda>(t, w). (t, w / m)) neighbors)) es) a
      = map_option (map (\<lambda>(t, w). (t, w / m))) (map_of es a)"
    for es :: "(string \<times> (string \<times> real) list) list"
    by (induction es) auto
  show ?thesis
    by (cases "map_of (edges g) a") (simp_all add: edgeAt_def adjacency_def outer inner)
qed

lemma normalizeWeights_invariant:
  "symmetricWeights g \<Longrightarrow> symmetricWeights (normalizeWeights g)"
  "nonNegativeWeights g \<Longrightarrow> nonNegativeWeights (normalizeWeights g)"
  "noSelfLoops g \<Longrightarrow> noSelfLoops (normalizeWeights g)"
proof -
  let ?m = "fold (\<lambda>(n, neighbors) m. fold (\<lambda>(t, w) m'. max m' w) neighbors m) (edges g) 0"
  have m: "0 \<le> ?m" by (rule outer_max_ge)
  show "symmetricWeights g \<Longrightarrow> symmetricWeights (normalizeWeights g)"
    by (simp add: normalizeWeights_def Let_def symmetricWeights_def edgeAt_scaled)
  show "noSelfLoops g \<Longrightarrow> noSelfLoops (normalizeWeights g)"
    by (simp add: normalizeWeights_def Let_def noSelfLoops_def edgeAt_scaled)
  show "nonNegativeWeights g \<Longrightarrow> nonNegativeWeights (normalizeWeights g)"
    using m by (auto simp: normalizeWeights_def Let_def nonNegativeWeights_def edgeAt_scaled)
qed

lemma cooccurrence_builders_symmetric_nonneg:
  "symmetricWeights (buildCooccurrenceGraph ents txt opts) \<and>
   nonNegativeWeights (buildCooccurrenceGraph ents txt opts) \<and>
   symmetricWeights (buildSentenceCooccurrenceGraph ents txt opts) \<and>
   nonNegativeWeights (buildSentenceCooccurrenceGraph ents txt opts)"
proof -
  have start: "symmetricWeights createGraph \<and> nonNegativeWeights createGraph"
    by (simp add: createGraph_invariant)
  have g: "symmetricWeights (fold (addCountedEdge minW) cooc createGraph)
           \<and> nonNegativeWeights (fold (addCountedEdge minW) cooc createGraph)"
    if "pairCountsOf (eid ` set ents) cooc" for minW cooc
    using fold_addCountedEdge_invariant[OF start pairCountsOf_nonneg[OF that]] .
  show ?thesis
    using g[OF builder_counts(1)] g[OF builder_counts(2)]
    by (simp add: buildCooccurrenceGraph_def buildSentenceCooccurrenceGraph_def Let_def
        normalizeWeights_invariant)
qed

text \<open>
  A key built from two ids without the character \<open>|\<close> splits back into these two
  ids, so for such ids the builders never call \<open>addEdge\<close> with equal arguments.
\<close>

lemma splitOn_no_pipe: "CHR ''|'' \<notin> set b \<Longrightarrow> splitOn ''|||'' acc b = [rev acc @ b]"
  by (induction b arbitrary: acc) auto

lemma splitOn_pipe_free_join:
  "CHR ''|'' \<notin> set a \<Longrightarrow> CHR ''|'' \<notin> set b \<Longrightarrow>
   splitOn ''|||'' acc (a @ ''|||'' @ b) = [rev acc @ a, b]"
  by (induction a arbitrary: acc) (auto simp: splitOn_no_pipe)

lemma edgeKey_cases: "edgeKey a b = a @ ''|||'' @ b \<or> edgeKey a b = b @ ''|||'' @ a"
  by (simp add: edgeKey_def sortPair_def)

lemma addCountedEdge_noSelfLoops:
  assumes "noSelfLoops g" and "a \<noteq> b" and "CHR ''|'' \<notin> set a" and "CHR ''|'' \<notin> set b"
  shows "noSelfLoops (addCountedEdge minW (edgeKey a b, w) g)"
  using edgeKey_cases[of a b] assms
  by (auto simp: addCountedEdge_def splitOn_pipe_free_join[of _ _ "[]", simplified]
      addEdge_noSelfLoops)

lemma fold_addCountedEdge_noSelfLoops:
  "noSelfLoops g \<Longrightarrow> pairCountsOf ids cooc \<Longrightarrow> (\<forall>i \<in> ids. CHR ''|'' \<notin> set i) \<Longrightarrow>
   noSelfLoops (fold (addCountedEdge minW) cooc g)"
proof (induction cooc arbitrary: g)
  case Nil
  then show ?case by simp
next
  case (Cons p cooc)
  obtain key w where p: "p = (key, w)" by (cases p)
  obtain a b where ab: "a \<in> ids" "b \<in> ids" "a \<noteq> b" "key = edgeKey a b"
    using Cons.prems(2) p by (auto simp: pairCountsOf_def)
  have "noSelfLoops (addCountedEdge minW p g)"
    using Cons.prems(1,3) ab p by (simp add: addCountedEdge_noSelfLoops)
  moreover have "pairCountsOf ids cooc" using Cons.prems(2) by (simp add: pairCountsOf_def)
  ultimately show ?case using Cons.IH Cons.prems(3) by simp
qed

lemma cooccurrence_builders_no_self_loops:
  assumes "\<forall>e \<in> set ents. CHR ''|'' \<notin> set (eid e)"
  shows "noSelfLoops (buildCooccurrenceGraph ents txt opts) \<and>
         noSelfLoops (buildSentenceCooccurrenceGraph ents txt opts)"
proof -
  have ids: "\<forall>i \<in> eid ` set ents. CHR ''|'' \<notin> set i" using assms by simp
  have g: "noSelfLoops (fold (addCountedEdge minW) cooc createGraph)"
    if "pairCountsOf (eid ` set ents) cooc" for minW cooc
    using fold_addCountedEdge_noSelfLoops[OF createGraph_invariant(3) that ids] .
  show ?thesis
    using g[OF builder_counts(1)] g[OF builder_counts(2)]
    by (simp add: buildCooccurrenceGraph_def buildSentenceCooccurrenceGraph_def Let_def
        normalizeWeights_invariant)
qed

subsection \<open>Self-loops\<close>

text \<open>
  C8 fails on the code in its second part.  The two entities with ids \<open>x\<close> and
  \<open>x|||y\<close> are distinct, so the builders count their co-occurrences under the key
  \<open>x|||x|||y\<close>; splitting that key at \<open>|||\<close> gives source \<open>x\<close> and target \<open>x\<close>, and
  \<open>addEdge\<close> stores a self-loop on \<open>x\<close>.  Both builders do so, with the default
  options, for the text \<open>x xy. xy x\<close>.
\<close>

theorem cooccurrence_builders_self_loop:
  "buildCooccurrenceGraph pipeEntities pipeText defaultCooccurrence
     = \<lparr>nodes = [''x''], edges = [(''x'', [(''x'', 8)])]\<rparr> \<and>
   hasEdge (buildCooccurrenceGraph pipeEntities pipeText defaultCooccurrence) ''x'' ''x'' \<and>
   buildSentenceCooccurrenceGraph pipeEntities pipeText defaultCooccurrence
     = \<lparr>nodes = [''x''], edges = [(''x'', [(''x'', 4)])]\<rparr> \<and>
   hasEdge (buildSentenceCooccurrenceGraph pipeEntities pipeText defaultCooccurrence) ''x'' ''x''"
  by code_simp

text \<open>
  The part of C10 about \<open>addEdge\<close> holds.  Calling \<open>addEdge\<close> with source equal to
  target creates a self-loop, and each such call raises the stored weight of that loop
  by twice the given weight, because the two symmetric writes go to the same adjacency
  map; so the no-self-loop invariant is not a property of \<open>addEdge\<close> itself.  The
  construction entry points do filter identical entity ids: every pair they count is a
  pair of two different ids.
\<close>

lemma addEdge_self_loop:
  "hasEdge (addEdge g s s w) s s \<and>
   getEdgeWeight (addEdge g s s w) s s = getEdgeWeight g s s + 2 * w \<and>
   \<not> noSelfLoops (addEdge g s s w) \<and>
   pairCountsOf (eid ` set ents)
     (calculateCooccurrences (sort_key mentionStart (flattenMentions ents))
        sourceText wsize byPos) \<and>
   pairCountsOf (eid ` set ents) (sentenceLoop ents sentences 0 [])"
proof -
  have e: "edgeAt (addEdge g s s w) s s = Some (num_or (edgeAt g s s) 0 + w + w)"
    by (simp add: edgeAt_addEdge)
  then have "hasEdge (addEdge g s s w) s s"
    and "getEdgeWeight (addEdge g s s w) s s = getEdgeWeight g s s + 2 * w"
    and "\<not> noSelfLoops (addEdge g s s w)"
    by (auto simp: hasEdge_def getEdgeWeight_def map_has_def noSelfLoops_def edgeAt_def)
  then show ?thesis by (simp add: builder_counts)
qed

lemma addEdge_self_loop_example:
  "hasEdge (addEdge createGraph ''a'' ''a'' 3) ''a'' ''a'' \<and>
   getEdgeWeight (addEdge createGraph ''a'' ''a'' 3) ''a'' ''a'' = 6 \<and>
   addEdge createGraph ''a'' ''a'' 3 = \<lparr>nodes = [''a''], edges = [(''a'', [(''a'', 6)])]\<rparr>"
proof -
  have "addEdge createGraph ''a'' ''a'' 3 = \<lparr>nodes = [''a''], edges = [(''a'', [(''a'', 6)])]\<rparr>"
    by (simp add: addEdge_def addNode_def createGraph_def set_add_def map_has_def
        map_set_def adjacency_def Let_def)
  moreover have "getEdgeWeight createGraph ''a'' ''a'' = 0"
    by (simp add: getEdgeWeight_def adjacency_def createGraph_def)
  ultimately show ?thesis
    using addEdge_self_loop[of createGraph "''a''" 3] by simp
qed

text \<open>
  The last clause of C10 fails on the code: the no-self-loop invariant does not hold
  for the entry points, although they filter identical entity ids.  The two entities
  with the ids \<open>|\<close> and \<open>||\<close> are different, their co-occurrences are counted under
  the key \<open>||||||\<close>, which splits at \<open>|||\<close> into three empty strings, and \<open>addEdge\<close>
  is called with the empty string as source and as target: both builders return a
  graph whose only node has an edge to itself.
\<close>

theorem entry_points_self_loop_despite_filter:
  "map eid barEntities = [''|'', ''||''] \<and>
   edgeKey ''|'' ''||'' = ''||||||'' \<and>
   splitOn ''|||'' [] ''||||||'' = [[], [], []] \<and>
   buildCooccurrenceGraph barEntities pipeText defaultCooccurrence
     = \<lparr>nodes = [[]], edges = [([], [([], 8)])]\<rparr> \<and>
   buildSentenceCooccurrenceGraph barEntities pipeText defaultCooccurrence
     = \<lparr>nodes = [[]], edges = [([], [([], 4)])]\<rparr> \<and>
   \<not> noSelfLoops (buildCooccurrenceGraph barEntities pipeText defaultCooccurrence) \<and>
   \<not> noSelfLoops (buildSentenceCooccurrenceGraph barEntities pipeText defaultCooccurrence)"
proof -
  have ids: "map eid barEntities = [''|'', ''||'']" by (simp add: barEntities_def)
  have key: "edgeKey ''|'' ''||'' = ''||||||''" by (simp add: edgeKey_def sortPair_def)
  have parts: "splitOn ''|||'' [] ''||||||'' = [[], [], []]" by simp
  have g1: "buildCooccurrenceGraph barEntities pipeText defaultCooccurrence
     = \<lparr>nodes = [[]], edges = [([], [([], 8)])]\<rparr>"
    by code_simp
  have g2: "buildSentenceCooccurrenceGraph barEntities pipeText defaultCooccurrence
     = \<lparr>nodes = [[]], edges = [([], [([], 4)])]\<rparr>"
    by code_simp
  have l1: "edgeAt \<lparr>nodes = [[]], edges = [([], [([], 8)])]\<rparr> [] [] = Some 8"
    and l2: "edgeAt \<lparr>nodes = [[]], edges = [([], [([], 4)])]\<rparr> [] [] = Some 4"
    by (simp_all add: edgeAt_def adjacency_def)
  have n1: "\<not> noSelfLoops \<lparr>nodes = [[]], edges = [([], [([], 8)])]\<rparr>"
    unfolding noSelfLoops_def using l1 by (metis option.distinct(1))
  have n2: "\<not> noSelfLoops \<lparr>nodes = [[]], edges = [([], [([], 4)])]\<rparr>"
    unfolding noSelfLoops_def using l2 by (metis option.distinct(1))
  show ?thesis using ids key parts g1 g2 n1 n2 by simp
qed


end
